theory Spec2Isabelle
  imports Main "HOL-Library.AList"
begin

section \<open>JavaScript values\<close>

text \<open>
  An optional string is a \<open>string option\<close>: \<open>None\<close> stands for \<open>undefined\<close>
  (and \<open>null\<close>), and for a key that an object does not have. The empty string and
  \<open>undefined\<close> are the falsy strings of JavaScript.
\<close>

definition truthy :: "string option \<Rightarrow> bool" where
  "truthy s = (case s of None \<Rightarrow> False | Some x \<Rightarrow> x \<noteq> [])"

text \<open>\<open>a || b\<close> on optional strings.\<close>

definition or_else :: "string option \<Rightarrow> string option \<Rightarrow> string option" where
  "or_else a b = (if truthy a then a else b)"

text \<open>A string inside a template literal: \<open>undefined\<close> prints as the word.\<close>

definition template :: "string option \<Rightarrow> string" where
  "template s = (case s of None \<Rightarrow> ''undefined'' | Some x \<Rightarrow> x)"

text \<open>Every \<open>throw Error(msg)\<close> of the source is the value \<open>Error msg\<close>.\<close>

datatype error = Error string

text \<open>lodash \<open>findIndex\<close>: the first position that satisfies the predicate; \<open>None\<close> is its \<open>-1\<close>.\<close>

fun findIndex :: "('a \<Rightarrow> bool) \<Rightarrow> 'a list \<Rightarrow> nat option" where
  "findIndex P [] = None"
| "findIndex P (x # xs) = (if P x then Some 0 else map_option Suc (findIndex P xs))"

text \<open>\<open>array.splice(index, 1)\<close>.\<close>

definition splice1 :: "nat \<Rightarrow> 'a list \<Rightarrow> 'a list" where
  "splice1 index xs = take index xs @ drop (Suc index) xs"

text \<open>lodash \<open>uniq\<close> keeps the first occurrence of each element.\<close>

fun uniq_from :: "'a list \<Rightarrow> 'a list \<Rightarrow> 'a list" where
  "uniq_from seen [] = []"
| "uniq_from seen (x # xs) = (if x \<in> set seen then uniq_from seen xs else x # uniq_from (x # seen) xs)"

definition uniq :: "'a list \<Rightarrow> 'a list" where
  "uniq xs = uniq_from [] xs"

text \<open>lodash \<open>intersection\<close>: the elements of the first array that the second has, once each.\<close>

definition intersection :: "'a list \<Rightarrow> 'a list \<Rightarrow> 'a list" where
  "intersection xs ys = uniq (filter (\<lambda>x. x \<in> set ys) xs)"

text \<open>\<open>array.join(sep)\<close>.\<close>

fun join :: "string \<Rightarrow> string list \<Rightarrow> string" where
  "join sep [] = []"
| "join sep [x] = x"
| "join sep (x # y # ys) = x @ sep @ join sep (y # ys)"

section \<open>The deployment record (ZosNetworkFile.ts)\<close>

text \<open>
  \<open>ProxyType\<close> is the string enum of scripts/interfaces; both of its values are truthy.
\<close>

datatype ProxyType = Upgradeable | Minimal

text \<open>
  The interfaces of the record. Field names carry a prefix, since several interfaces
  have an \<open>address\<close> or a \<open>version\<close>. The fields typed \<open>any\<close> are opaque strings.
\<close>

record ContractInterface =
  c_address :: "string option"
  c_constructorCode :: "string option"
  c_localBytecodeHash :: "string option"
  c_deployedBytecodeHash :: "string option"
  c_bodyBytecodeHash :: "string option"
  c_types :: "string option"
  c_storage :: "string option"
  c_warnings :: "string option"

record SolidityLibInterface =
  l_address :: string
  l_constructorCode :: string
  l_bodyBytecodeHash :: string
  l_localBytecodeHash :: string
  l_deployedBytecodeHash :: string

record ProxyInterface =
  p_alias :: "string option"
  p_package :: "string option"
  p_contract :: "string option"
  p_address :: "string option"
  p_version :: "string option"
  p_implementation :: "string option"
  p_admin :: "string option"
  p_kind :: "ProxyType option"

text \<open>
  \<open>setDependency\<close> writes the three keys of the entry it builds also when the value
  is \<open>undefined\<close>, so a dependency entry tells a key that is missing from a key that
  holds \<open>undefined\<close> (\<open>Holds None\<close>). Reading either gives \<open>undefined\<close>.
\<close>

datatype 'a key = Missing | Holds "'a option"

fun key_value :: "'a key \<Rightarrow> 'a option" where
  "key_value Missing = None"
| "key_value (Holds v) = v"

record DependencyInterface =
  d_name :: "string key"
  d_package :: "string key"
  d_version :: "string key"
  d_customDeploy :: "bool key"

text \<open>The object \<open>{}\<close>.\<close>

definition no_dependency_keys :: DependencyInterface where
  "no_dependency_keys =
     \<lparr> d_name = Missing, d_package = Missing, d_version = Missing, d_customDeploy = Missing \<rparr>"

record AddressWrapper =
  w_address :: "string option"

text \<open>
  \<open>this.data\<close>. An object with string keys is an association list in insertion order,
  read with \<open>map_of\<close> and written with \<open>AList.update\<close> (an existing key keeps its
  place, a new key goes to the end) and \<open>AList.delete\<close>. The constructor's defaults
  hold \<open>contracts\<close>, \<open>solidityLibs\<close>, \<open>proxies\<close> and \<open>zosversion\<close>; every other
  key may be missing. Outside the dependency entries, a key that holds \<open>undefined\<close>
  and a key that is missing are the same \<open>None\<close>.
\<close>

record NetworkData =
  data_contracts :: "(string \<times> ContractInterface) list"
  data_solidityLibs :: "(string \<times> SolidityLibInterface) list"
  data_proxies :: "(string \<times> ProxyInterface list) list"
  data_zosversion :: "string option"
  data_proxyAdmin :: "AddressWrapper option"
  data_proxyFactory :: "AddressWrapper option"
  data_app :: "AddressWrapper option"
  data_package :: "AddressWrapper option"
  data_provider :: "AddressWrapper option"
  data_version :: "string option"
  data_frozen :: "bool option"
  data_dependencies :: "(string \<times> DependencyInterface) list option"

text \<open>
  Modelled from the spec: ZosPackageFile.ts, the manifest, is not among the sources.
  The spec gives it as \<open>{ name, version, contracts: alias \<rightarrow> contractName,
  dependencies: name \<rightarrow> versionRequirement }\<close>; \<open>isPublished\<close> and \<open>zosversion\<close> are
  the two other members of it that the controller reads.
\<close>

record ZosPackageFile =
  pf_name :: string
  pf_version :: string
  pf_contracts :: "(string \<times> string) list"
  pf_dependencies :: "(string \<times> string) list"
  pf_isPublished :: bool
  pf_zosversion :: "string option"

text \<open>Modelled from the spec: the manifest's \<open>contract(alias)\<close>, \<open>hasContract(alias)\<close>,
  \<open>contractNames\<close> and \<open>contractAliases\<close>, read off the map \<open>alias \<rightarrow> contractName\<close>.\<close>

definition pf_contract :: "ZosPackageFile \<Rightarrow> string \<Rightarrow> string option" where
  "pf_contract pf contractAlias = map_of (pf_contracts pf) contractAlias"

definition pf_hasContract :: "ZosPackageFile \<Rightarrow> string \<Rightarrow> bool" where
  "pf_hasContract pf contractAlias = (pf_contract pf contractAlias \<noteq> None)"

definition pf_contractNames :: "ZosPackageFile \<Rightarrow> string list" where
  "pf_contractNames pf = map snd (pf_contracts pf)"

definition pf_contractAliases :: "ZosPackageFile \<Rightarrow> string list" where
  "pf_contractAliases pf = map fst (pf_contracts pf)"

record ZosNetworkFile =
  packageFile :: ZosPackageFile
  fileName :: string
  data :: NetworkData

text \<open>
  A local contract class is its \<open>schema\<close>: the contract name and the bytecode.
\<close>

record Contract =
  contractName :: string
  bytecode :: string

text \<open>
  The pure collaborators that live outside the sources are the fields of one
  environment: zos-lib (\<open>bytecodeDigest\<close>, \<open>getSolidityLibNames\<close>,
  \<open>semanticVersionToString\<close>, \<open>Contracts.getFromLocal\<close>), utils/naming, ZosVersion
  (\<open>ZOS_VERSION\<close>, \<open>isMigratableZosversion\<close>), \<open>ZWeb3.toChecksumAddress\<close> and
  \<open>ContractManager.getContractClass\<close>. Every theorem holds for every environment.
  \<open>fromContractFullName\<close> returns the pair \<open>(package, contract)\<close>.
\<close>

record env =
  bytecodeDigest :: "string \<Rightarrow> string"
  getSolidityLibNames :: "string \<Rightarrow> string list"
  getFromLocal :: "string \<Rightarrow> Contract"
  getContractClass :: "string option \<Rightarrow> string option \<Rightarrow> error + Contract"
  toContractFullName :: "string option \<Rightarrow> string option \<Rightarrow> string"
  fromContractFullName :: "string \<Rightarrow> string option \<times> string option"
  toChecksumAddress :: "string option \<Rightarrow> string option"
  semanticVersionToString :: "string option \<Rightarrow> error + string"
  isMigratableZosversion :: "string option \<Rightarrow> bool"
  ZOS_VERSION :: string

subsection \<open>Getters\<close>

definition proxyAdminAddress :: "ZosNetworkFile \<Rightarrow> string option" where
  "proxyAdminAddress nf = (case data_proxyAdmin (data nf) of None \<Rightarrow> None | Some w \<Rightarrow> w_address w)"

definition proxyFactoryAddress :: "ZosNetworkFile \<Rightarrow> string option" where
  "proxyFactoryAddress nf = (case data_proxyFactory (data nf) of None \<Rightarrow> None | Some w \<Rightarrow> w_address w)"

definition appAddress :: "ZosNetworkFile \<Rightarrow> string option" where
  "appAddress nf = (case data_app (data nf) of None \<Rightarrow> None | Some w \<Rightarrow> w_address w)"

definition contract :: "ZosNetworkFile \<Rightarrow> string \<Rightarrow> ContractInterface option" where
  "contract nf contractAlias = map_of (data_contracts (data nf)) contractAlias"

definition solidityLib :: "ZosNetworkFile \<Rightarrow> string \<Rightarrow> SolidityLibInterface option" where
  "solidityLib nf libName = map_of (data_solidityLibs (data nf)) libName"

text \<open>lodash \<open>isEmpty\<close> of a contract entry: \<open>undefined\<close>, or an object with no key.\<close>

definition isEmpty_contract :: "ContractInterface option \<Rightarrow> bool" where
  "isEmpty_contract c = (case c of None \<Rightarrow> True | Some x \<Rightarrow>
     c_address x = None \<and> c_constructorCode x = None \<and> c_localBytecodeHash x = None \<and>
     c_deployedBytecodeHash x = None \<and> c_bodyBytecodeHash x = None \<and> c_types x = None \<and>
     c_storage x = None \<and> c_warnings x = None)"

definition hasContract :: "ZosNetworkFile \<Rightarrow> string \<Rightarrow> bool" where
  "hasContract nf contractAlias = (\<not> isEmpty_contract (contract nf contractAlias))"

text \<open>A library entry has five required keys, so it is empty only when it is missing.\<close>

definition hasSolidityLib :: "ZosNetworkFile \<Rightarrow> string \<Rightarrow> bool" where
  "hasSolidityLib nf libName = (solidityLib nf libName \<noteq> None)"

subsection \<open>hasSameBytecode\<close>

text \<open>
  \<open>this.contract(alias) || this.solidityLib(alias)\<close>: an entry of \<open>contracts\<close> is an
  object, hence truthy, and wins; otherwise the library of that name is taken. The
  method has no \<open>return\<close> when neither exists: the result is \<open>undefined\<close>, here \<open>None\<close>.
\<close>

definition hasSameBytecode :: "env \<Rightarrow> ZosNetworkFile \<Rightarrow> string \<Rightarrow> Contract \<Rightarrow> bool option" where
  "hasSameBytecode e nf contractAlias klass =
     (case (case contract nf contractAlias of
              Some c \<Rightarrow> Some (c_localBytecodeHash c)
            | None \<Rightarrow> (case solidityLib nf contractAlias of
                         Some l \<Rightarrow> Some (Some (l_localBytecodeHash l))
                       | None \<Rightarrow> None)) of
        Some localBytecode \<Rightarrow>
          (let currentBytecode = bytecodeDigest e (bytecode klass)
           in Some (Some currentBytecode = localBytecode))
      | None \<Rightarrow> None)"

subsection \<open>Dependencies\<close>

text \<open>The getter \<open>dependencies\<close>: \<open>this.data.dependencies || {}\<close>.\<close>

definition dependencies :: "ZosNetworkFile \<Rightarrow> (string \<times> DependencyInterface) list" where
  "dependencies nf = (case data_dependencies (data nf) of None \<Rightarrow> [] | Some ds \<Rightarrow> ds)"

text \<open>
  \<open>getDependency\<close> returns \<open>null\<close>, here \<open>None\<close>, when the record has no
  \<open>dependencies\<close> object, and \<open>{}\<close> for a name the object does not have (an entry is
  an object, hence truthy).
\<close>

definition getDependency :: "ZosNetworkFile \<Rightarrow> string \<Rightarrow> DependencyInterface option" where
  "getDependency nf name =
     (case data_dependencies (data nf) of
        None \<Rightarrow> None
      | Some ds \<Rightarrow> (case map_of ds name of
                     Some dependency \<Rightarrow> Some dependency
                   | None \<Rightarrow> Some no_dependency_keys))"

text \<open>
  \<open>setDependency\<close> returns the exception, if any, and the record it leaves: the first
  statement gives the record an empty \<open>dependencies\<close> object when it has none, and
  \<open>semanticVersionToString\<close> may throw after that, while the entry is built. The
  second argument is destructured, which reads its three keys; a call without it is the
  call with \<open>{}\<close>. The entry is built with its key \<open>customDeploy\<close> holding
  \<open>undefined\<close>, and the supplied value is assigned to it when it is truthy.
\<close>

definition setDependency ::
  "env \<Rightarrow> string \<Rightarrow> DependencyInterface \<Rightarrow> ZosNetworkFile \<Rightarrow> error option \<times> ZosNetworkFile" where
  "setDependency e name dep nf =
     (let thepackage = key_value (d_package dep);
          version = key_value (d_version dep);
          customDeploy = key_value (d_customDeploy dep);
          deps = (case data_dependencies (data nf) of None \<Rightarrow> [] | Some ds \<Rightarrow> ds)
      in case semanticVersionToString e version of
           Inl err \<Rightarrow> (Some err, nf\<lparr> data := (data nf)\<lparr> data_dependencies := Some deps \<rparr> \<rparr>)
         | Inr v \<Rightarrow>
             (let dependency = \<lparr> d_name = Missing, d_package = Holds thepackage,
                                 d_version = Holds (Some v), d_customDeploy = Holds None \<rparr>;
                  dependency' = (if customDeploy = Some True
                                 then dependency\<lparr> d_customDeploy := Holds customDeploy \<rparr>
                                 else dependency)
              in (None, nf\<lparr> data := (data nf)\<lparr> data_dependencies :=
                                  Some (AList.update name dependency' deps) \<rparr> \<rparr>)))"

subsection \<open>Proxies\<close>

text \<open>
  \<open>getProxies\<close>: each entry is spread over the package and contract that its full name
  gives (\<open>{...fromContractFullName(fullname), ...proxyInfo, kind: proxyInfo.kind ||
  ProxyType.Upgradeable}\<close>), then the four filter fields are applied. The early
  \<open>return []\<close> for an empty \<open>proxies\<close> object is the empty concatenation.
\<close>

definition spreadProxy :: "env \<Rightarrow> string \<Rightarrow> ProxyInterface \<Rightarrow> ProxyInterface" where
  "spreadProxy e fullname proxyInfo =
     proxyInfo\<lparr>
       p_package := (case p_package proxyInfo of Some x \<Rightarrow> Some x
                     | None \<Rightarrow> fst (fromContractFullName e fullname)),
       p_contract := (case p_contract proxyInfo of Some x \<Rightarrow> Some x
                      | None \<Rightarrow> snd (fromContractFullName e fullname)),
       p_kind := Some (case p_kind proxyInfo of Some k \<Rightarrow> k | None \<Rightarrow> Upgradeable) \<rparr>"

definition getProxies :: "env \<Rightarrow> ZosNetworkFile \<Rightarrow> ProxyInterface \<Rightarrow> ProxyInterface list" where
  "getProxies e nf flt =
     (let allProxies = concat (map (\<lambda>(fullname, proxiesList). map (spreadProxy e fullname) proxiesList)
                                   (data_proxies (data nf)))
      in filter (\<lambda>proxy.
           (\<not> truthy (p_package flt) \<or> p_package proxy = p_package flt) \<and>
           (\<not> truthy (p_contract flt) \<or> p_contract proxy = p_contract flt) \<and>
           (\<not> truthy (p_address flt) \<or> p_address proxy = p_address flt) \<and>
           (p_kind flt = None \<or> p_kind proxy = p_kind flt)) allProxies)"

text \<open>
  The lodash matcher \<open>{ address }\<close> of \<open>findIndex\<close> is
  \<open>object.address === address && (address !== undefined || 'address' in object)\<close>.
  An entry has no key that holds \<open>undefined\<close>, so an undefined address matches no entry.
\<close>

definition matchesAddress :: "string option \<Rightarrow> ProxyInterface \<Rightarrow> bool" where
  "matchesAddress addr p = (case addr of None \<Rightarrow> False | Some a \<Rightarrow> p_address p = Some a)"

definition proxiesOf :: "ZosNetworkFile \<Rightarrow> string \<Rightarrow> ProxyInterface list" where
  "proxiesOf nf fullname = (case map_of (data_proxies (data nf)) fullname of None \<Rightarrow> [] | Some ps \<Rightarrow> ps)"

definition indexOfProxy :: "ZosNetworkFile \<Rightarrow> string \<Rightarrow> string option \<Rightarrow> nat option" where
  "indexOfProxy nf fullname addr =
     (case map_of (data_proxies (data nf)) fullname of
        None \<Rightarrow> None
      | Some ps \<Rightarrow> findIndex (matchesAddress addr) ps)"

definition setProxies :: "string \<Rightarrow> ProxyInterface list \<Rightarrow> ZosNetworkFile \<Rightarrow> ZosNetworkFile" where
  "setProxies fullname v nf =
     nf\<lparr> data := (data nf)\<lparr> data_proxies := AList.update fullname v (data_proxies (data nf)) \<rparr> \<rparr>"

definition addProxy :: "env \<Rightarrow> string option \<Rightarrow> string option \<Rightarrow> ProxyInterface \<Rightarrow> ZosNetworkFile \<Rightarrow> ZosNetworkFile" where
  "addProxy e thepackage contractAlias info nf =
     (let fullname = toContractFullName e thepackage contractAlias
      in setProxies fullname (proxiesOf nf fullname @ [info]) nf)"

definition removeProxy :: "env \<Rightarrow> string option \<Rightarrow> string option \<Rightarrow> string option \<Rightarrow> ZosNetworkFile \<Rightarrow> ZosNetworkFile" where
  "removeProxy e thepackage contractAlias addr nf =
     (let fullname = toContractFullName e thepackage contractAlias
      in case indexOfProxy nf fullname addr of
           None \<Rightarrow> nf
         | Some index \<Rightarrow>
             (let nf' = setProxies fullname (splice1 index (proxiesOf nf fullname)) nf
              in if length (proxiesOf nf' fullname) = 0
                 then nf'\<lparr> data := (data nf')\<lparr> data_proxies := AList.delete fullname (data_proxies (data nf')) \<rparr> \<rparr>
                 else nf'))"

text \<open>
  \<open>updateProxy\<close>. The callback \<open>fn\<close> may throw (the one of \<open>_upgradeProxy\<close> calls
  \<open>semanticVersionToString\<close>); it runs after the index check and before the assignment.
\<close>

definition updateProxy ::
  "env \<Rightarrow> ProxyInterface \<Rightarrow> (ProxyInterface \<Rightarrow> error + ProxyInterface) \<Rightarrow> ZosNetworkFile \<Rightarrow>
     error + ZosNetworkFile" where
  "updateProxy e proxy fn nf =
     (let fullname = toContractFullName e (p_package proxy) (p_contract proxy)
      in case indexOfProxy nf fullname (p_address proxy) of
           None \<Rightarrow> Inl (Error (''Proxy '' @ fullname @ '' at '' @ template (p_address proxy) @
                               '' not found in network file''))
         | Some index \<Rightarrow>
             (case fn (proxiesOf nf fullname ! index) of
                Inl err \<Rightarrow> Inl err
              | Inr updated \<Rightarrow>
                  Inr (setProxies fullname ((proxiesOf nf fullname)[index := updated]) nf)))"

subsection \<open>write\<close>

text \<open>
  \<open>write()\<close> does not read a single key of \<open>this.data\<close>: it hands the object as it
  is to lodash \<open>isEqual\<close>, which counts a key that holds \<open>undefined\<close>, and to
  \<open>fs.writeJson\<close>, which leaves such a key out. So here the record in memory is a
  JavaScript value: an object is the list of its keys in insertion order, each with its
  value. Numbers are the integers.
\<close>

datatype jsval =
    JUndefined
  | JNull
  | JBoolean bool
  | JNumber int
  | JString string
  | JArray "jsval list"
  | JObject "(string \<times> jsval) list"



text \<open>
  \<open>jsonify value\<close> is what \<open>JSON.parse\<close> reads back from the text that
  \<open>JSON.stringify\<close> makes of \<open>value\<close>: a key that holds \<open>undefined\<close> is left out,
  \<open>undefined\<close> inside an array becomes \<open>null\<close>, everything else is kept, in order.
\<close>

fun jsonify :: "jsval \<Rightarrow> jsval" where
  "jsonify (JObject object) =
     JObject (map (\<lambda>(key, v). (key, jsonify v)) (filter (\<lambda>(key, v). v \<noteq> JUndefined) object))"
| "jsonify (JArray array) = JArray (map (\<lambda>v. if v = JUndefined then JNull else jsonify v) array)"
| "jsonify v = v"



text \<open>
  The object that a dependency entry is: its keys in the order in which \<open>setDependency\<close>
  writes them, a missing key left out.
\<close>

definition key_entry :: "string \<Rightarrow> ('a \<Rightarrow> jsval) \<Rightarrow> 'a key \<Rightarrow> (string \<times> jsval) list" where
  "key_entry name js k =
     (case k of
        Missing \<Rightarrow> []
      | Holds None \<Rightarrow> [(name, JUndefined)]
      | Holds (Some v) \<Rightarrow> [(name, js v)])"

definition dependency_object :: "DependencyInterface \<Rightarrow> jsval" where
  "dependency_object dep =
     JObject (key_entry ''name'' JString (d_name dep) @
              key_entry ''package'' JString (d_package dep) @
              key_entry ''version'' JString (d_version dep) @
              key_entry ''customDeploy'' JBoolean (d_customDeploy dep))"






section \<open>Dependency.satisfiesVersion (Dependency.ts)\<close>

text \<open>
  \<open>semver.coerce\<close> and \<open>semver.satisfies\<close> belong to the npm package semver; they are
  parameters. \<open>coerce\<close> gives \<open>None\<close> for its \<open>null\<close>.
\<close>

definition satisfiesVersion ::
  "(string \<Rightarrow> 'v option) \<Rightarrow> ('v option \<Rightarrow> string \<Rightarrow> bool) \<Rightarrow> string \<Rightarrow> string option \<Rightarrow> bool" where
  "satisfiesVersion coerce satisfies version requirement =
     (\<not> truthy requirement \<or>
      Some version = requirement \<or>
      (case requirement of Some r \<Rightarrow> satisfies (coerce version) r | None \<Rightarrow> False))"

text \<open>
  A stand-in for the two semver functions on a fragment: versions written
  \<open>MAJOR.MINOR.PATCH\<close> in decimal digits, and ranges that are empty or \<open>*\<close> (any
  version), a caret range \<open>^MAJOR.MINOR.PATCH\<close>, or one exact version. Anything else
  has no version, and no version satisfies nothing, as in semver (\<open>Range.test\<close>
  returns false for a missing version). It serves to run the examples only.
\<close>

definition digit_of :: "char \<Rightarrow> nat option" where
  "digit_of c = findIndex (\<lambda>d. d = c) ''0123456789''"

fun number_from :: "nat \<Rightarrow> string \<Rightarrow> nat option" where
  "number_from acc [] = Some acc"
| "number_from acc (c # cs) =
     (case digit_of c of None \<Rightarrow> None | Some d \<Rightarrow> number_from (10 * acc + d) cs)"

definition parse_number :: "string \<Rightarrow> nat option" where
  "parse_number s = (if s = [] then None else number_from 0 s)"

fun split_on :: "char \<Rightarrow> string \<Rightarrow> string \<Rightarrow> string list" where
  "split_on sep cur [] = [rev cur]"
| "split_on sep cur (c # cs) =
     (if c = sep then rev cur # split_on sep [] cs else split_on sep (c # cur) cs)"

definition parse_version :: "string \<Rightarrow> (nat \<times> nat \<times> nat) option" where
  "parse_version s =
     (case split_on (CHR ''.'') [] s of
        [a, b, c] \<Rightarrow>
          (case parse_number a of None \<Rightarrow> None | Some x \<Rightarrow>
           case parse_number b of None \<Rightarrow> None | Some y \<Rightarrow>
           case parse_number c of None \<Rightarrow> None | Some z \<Rightarrow> Some (x, y, z))
      | _ \<Rightarrow> None)"

definition version_less :: "nat \<times> nat \<times> nat \<Rightarrow> nat \<times> nat \<times> nat \<Rightarrow> bool" where
  "version_less v w =
     (case v of (a, b, c) \<Rightarrow> case w of (x, y, z) \<Rightarrow>
        a < x \<or> (a = x \<and> (b < y \<or> (b = y \<and> c < z))))"

definition caret_upper :: "nat \<times> nat \<times> nat \<Rightarrow> nat \<times> nat \<times> nat" where
  "caret_upper r =
     (case r of (a, b, c) \<Rightarrow>
        if 0 < a then (a + 1, 0, 0) else if 0 < b then (0, b + 1, 0) else (0, 0, c + 1))"

definition semver_coerce :: "string \<Rightarrow> (nat \<times> nat \<times> nat) option" where
  "semver_coerce version = parse_version version"

definition semver_satisfies :: "(nat \<times> nat \<times> nat) option \<Rightarrow> string \<Rightarrow> bool" where
  "semver_satisfies version rng =
     (case version of
        None \<Rightarrow> False
      | Some v \<Rightarrow>
          (if rng = [] \<or> rng = ''*'' then True
           else if hd rng = CHR ''^'' then
             (case parse_version (tl rng) of
                None \<Rightarrow> False
              | Some r \<Rightarrow> \<not> version_less v r \<and> version_less v (caret_upper r))
           else (case parse_version rng of None \<Rightarrow> False | Some r \<Rightarrow> v = r)))"

section \<open>The reconciler (NetworkController.ts)\<close>

subsection \<open>The push delta\<close>

text \<open>
  The methods below read \<open>this.networkFile\<close> and \<open>this.packageFile\<close>, which is the
  package file of the network file.
\<close>

definition isPublished :: "ZosNetworkFile \<Rightarrow> bool" where
  "isPublished nf = (pf_isPublished (packageFile nf) \<or> appAddress nf \<noteq> None)"

definition newVersionRequired :: "ZosNetworkFile \<Rightarrow> bool" where
  "newVersionRequired nf =
     (Some (pf_version (packageFile nf)) \<noteq> data_version (data nf) \<and> isPublished nf)"

definition isLocalContract :: "ZosNetworkFile \<Rightarrow> string \<Rightarrow> bool" where
  "isLocalContract nf contractAlias = pf_hasContract (packageFile nf) contractAlias"

definition isContractDeployed :: "ZosNetworkFile \<Rightarrow> string \<Rightarrow> bool" where
  "isContractDeployed nf contractAlias =
     (\<not> isLocalContract nf contractAlias \<or> hasContract nf contractAlias)"

text \<open>
  \<open>!this.networkFile.hasSameBytecode(...)\<close> is true for \<open>false\<close> and for \<open>undefined\<close>.
\<close>

definition hasContractChanged :: "env \<Rightarrow> ZosNetworkFile \<Rightarrow> string \<Rightarrow> Contract option \<Rightarrow> bool" where
  "hasContractChanged e nf contractAlias klass =
     (if \<not> isLocalContract nf contractAlias then False
      else if \<not> isContractDeployed nf contractAlias then True
      else (let klass' = (case klass of
                            Some c \<Rightarrow> c
                          | None \<Rightarrow> getFromLocal e (template (pf_contract (packageFile nf) contractAlias)))
            in hasSameBytecode e nf contractAlias klass' \<noteq> Some True))"

definition hasSolidityLibChanged :: "env \<Rightarrow> ZosNetworkFile \<Rightarrow> Contract \<Rightarrow> bool" where
  "hasSolidityLibChanged e nf libClass =
     (hasSameBytecode e nf (contractName libClass) libClass \<noteq> Some True)"

definition hasChangedLibraries :: "env \<Rightarrow> Contract \<Rightarrow> Contract list \<Rightarrow> bool" where
  "hasChangedLibraries e klass changedLibraries =
     (let libNames = getSolidityLibNames e (bytecode klass)
      in intersection (map contractName changedLibraries) libNames \<noteq> [])"

definition getAllSolidityLibNames :: "env \<Rightarrow> string list \<Rightarrow> string list" where
  "getAllSolidityLibNames e contractNames =
     uniq (concat (map (\<lambda>name. getSolidityLibNames e (bytecode (getFromLocal e name))) contractNames))"

definition contractsListForPush ::
  "env \<Rightarrow> ZosNetworkFile \<Rightarrow> bool \<Rightarrow> Contract list \<Rightarrow> (string \<times> Contract) list" where
  "contractsListForPush e nf onlyChanged changedLibraries =
     (let newVersion = newVersionRequired nf
      in filter (\<lambda>(contractAlias, klass).
                   newVersion \<or> \<not> onlyChanged \<or>
                   hasContractChanged e nf contractAlias (Some klass) \<or>
                   hasChangedLibraries e klass changedLibraries)
           (map (\<lambda>(contractAlias, name). (contractAlias, getFromLocal e name))
                (pf_contracts (packageFile nf))))"

definition solidityLibsForPush :: "env \<Rightarrow> ZosNetworkFile \<Rightarrow> bool \<Rightarrow> error + Contract list" where
  "solidityLibsForPush e nf onlyChanged =
     (let libNames = getAllSolidityLibNames e (pf_contractNames (packageFile nf));
          clashes = intersection libNames (pf_contractAliases (packageFile nf))
      in if clashes \<noteq> [] then
           Inl (Error (''Cannot upload libraries with the same name as a contract alias: '' @
                       join '', '' clashes))
         else Inr (filter (\<lambda>libClass.
                     \<not> hasSolidityLib nf (contractName libClass) \<or> \<not> onlyChanged \<or>
                     hasSolidityLibChanged e nf libClass)
                   (map (getFromLocal e) libNames)))"

text \<open>The first two statements of \<open>push(reupload, force)\<close>: the two deltas.\<close>

definition push_deltas ::
  "env \<Rightarrow> ZosNetworkFile \<Rightarrow> bool \<Rightarrow> error + Contract list \<times> (string \<times> Contract) list" where
  "push_deltas e nf reupload =
     (case solidityLibsForPush e nf (\<not> reupload) of
        Inl err \<Rightarrow> Inl err
      | Inr changedLibraries \<Rightarrow>
          Inr (changedLibraries, contractsListForPush e nf (\<not> reupload) changedLibraries))"

subsection \<open>The backend and the controller\<close>

record CreateArgs =
  ca_packageName :: "string option"
  ca_contractName :: "string option"
  ca_initMethod :: "string option"
  ca_initArgs :: "string list"
  ca_admin :: "string option"

text \<open>
  Every \<open>await\<close> on a collaborator outside the sources is a call; the constructor names
  the function and carries its arguments. The deployers of ProjectDeployer.ts and the
  artifact update of \<open>_updateTruffleDeployedInformation\<close> are calls as well.
\<close>

datatype call =
    Deployer_fetchOrDeploy bool "string option"
  | Project_createProxyWithSalt Contract "string option" "string option" CreateArgs
  | Project_createProxy Contract CreateArgs
  | Project_createMinimalProxy Contract CreateArgs
  | Project_getImplementation "string option" "string option"
  | Project_getDependencyVersion "string option"
  | Project_upgradeProxy "string option" Contract "string option" "string list"
  | Project_changeProxyAdmin "string option" string
  | Project_getAdminAddress
  | Project_proxyFactory_address
  | Project_getProxyDeploymentAddress "string option" "string option"
  | Proxy_implementation "string option"
  | MinimalProxy_implementation "string option"
  | Proxy_admin "string option"
  | ProxyAdmin_fetch "string option"
  | ProxyAdmin_deploy
  | Transactions_awaitConfirmations
  | AppProxyMigrator "string option" "string option" "string option"
  | SimpleProject_changeProxyAdmin "string option" "string option"
  | ZWeb3_getCode "string option"
  | Artifact_update string "string option"

text \<open>
  The backend answers a call, given the calls made before it, with an exception or with
  a value (an address, a version, or nothing). Every theorem holds for every backend.
\<close>

type_synonym backend = "call list \<Rightarrow> call \<Rightarrow> error + string option"

text \<open>
  The controller: its network file, the sender of \<open>txParams\<close>, whether \<open>this.project\<close>
  has been set, and the calls made so far.
\<close>

record NetworkController =
  networkFile :: ZosNetworkFile
  txParams_from :: "string option"
  project :: bool
  calls :: "call list"

text \<open>
  An asynchronous method takes the controller and returns its result, an exception or a
  value, with the controller it leaves.
\<close>

type_synonym 'a action = "NetworkController \<Rightarrow> (error + 'a) \<times> NetworkController"

definition resolve :: "'a \<Rightarrow> 'a action" where
  "resolve x nc = (Inr x, nc)"

definition reject :: "error \<Rightarrow> 'a action" where
  "reject err nc = (Inl err, nc)"

definition andThen :: "'a action \<Rightarrow> ('a \<Rightarrow> 'b action) \<Rightarrow> 'b action" where
  "andThen m f nc = (case m nc of (Inl err, nc') \<Rightarrow> (Inl err, nc') | (Inr x, nc') \<Rightarrow> f x nc')"

text \<open>\<open>try { m } finally { fin }\<close>: an exception of \<open>fin\<close> replaces the outcome of \<open>m\<close>.\<close>

definition tryFinally :: "'a action \<Rightarrow> unit action \<Rightarrow> 'a action" where
  "tryFinally m fin nc =
     (case m nc of (r, nc') \<Rightarrow>
        (case fin nc' of (Inl err, nc'') \<Rightarrow> (Inl err, nc'') | (Inr u, nc'') \<Rightarrow> (r, nc'')))"

text \<open>\<open>catch (error) { error.message = f(error.message); throw error }\<close>.\<close>

definition rethrow :: "(string \<Rightarrow> string) \<Rightarrow> 'a action \<Rightarrow> 'a action" where
  "rethrow f m nc =
     (case m nc of (Inl (Error msg), nc') \<Rightarrow> (Inl (Error (f msg)), nc') | (Inr x, nc') \<Rightarrow> (Inr x, nc'))"

text \<open>
  A call of an async method that is not awaited. The two such calls of the source,
  \<open>_tryRegisterProxyFactory()\<close> and \<open>_tryRegisterProxyAdmin(address)\<close> with an address,
  reach no \<open>await\<close>, so they run at once; their exception would be a rejection that
  nobody handles.
\<close>

definition floating :: "unit action \<Rightarrow> unit action" where
  "floating m nc = (case m nc of (r, nc') \<Rightarrow> (Inr (), nc'))"

definition perform :: "backend \<Rightarrow> call \<Rightarrow> string option action" where
  "perform b c nc = (b (calls nc) c, nc\<lparr> calls := calls nc @ [c] \<rparr>)"

text \<open>A method of \<open>this.project\<close>: a TypeError while the project is not set.\<close>

definition performProject :: "backend \<Rightarrow> call \<Rightarrow> string option action" where
  "performProject b c nc =
     (if project nc then perform b c nc
      else (Inl (Error ''TypeError: Cannot read property of undefined''), nc))"

text \<open>
  Modelled from the spec: \<open>allPromisesOrError\<close> of utils/async is not among the
  sources. Section 5: the batch is launched together, it waits for all tasks to settle,
  and it raises one error that enumerates every failure. The tasks are promises that
  already run when \<open>allPromisesOrError\<close> receives them; here they run one after the
  other, in the order of the list.
\<close>

fun allSettled :: "'a action list \<Rightarrow> NetworkController \<Rightarrow> (error + 'a) list \<times> NetworkController" where
  "allSettled [] nc = ([], nc)"
| "allSettled (t # ts) nc =
     (case t nc of (r, nc') \<Rightarrow> (case allSettled ts nc' of (rs, nc'') \<Rightarrow> (r # rs, nc'')))"

fun failures :: "(error + 'a) list \<Rightarrow> string list" where
  "failures [] = []"
| "failures (Inl (Error msg) # rs) = msg # failures rs"
| "failures (Inr x # rs) = failures rs"

fun results :: "(error + 'a) list \<Rightarrow> 'a list" where
  "results [] = []"
| "results (Inl err # rs) = results rs"
| "results (Inr x # rs) = x # results rs"

definition allPromisesOrError :: "'a action list \<Rightarrow> 'a list action" where
  "allPromisesOrError tasks nc =
     (case allSettled tasks nc of (rs, nc') \<Rightarrow>
        if failures rs = [] then (Inr (results rs), nc')
        else (Inl (Error (join [CHR 0x0A] (failures rs))), nc'))"

subsection \<open>Small steps of the controller\<close>

definition currentVersion :: "NetworkController \<Rightarrow> string option" where
  "currentVersion nc = data_version (data (networkFile nc))"

text \<open>
  Modelled from the spec: ProjectDeployer.ts is not among the sources. Section 6 lists
  \<open>fetchOrDeploy(version)\<close> among the calls of the deployment backend; the deployer
  (for a published project or not) is that call, and it leaves the record alone.
\<close>

definition fetchOrDeploy :: "backend \<Rightarrow> string option \<Rightarrow> unit action" where
  "fetchOrDeploy b requestedVersion nc =
     andThen (perform b (Deployer_fetchOrDeploy (isPublished (networkFile nc)) requestedVersion))
             (\<lambda>_ nc'. (Inr (), nc'\<lparr> project := True \<rparr>)) nc"

definition set_proxyAdmin :: "AddressWrapper \<Rightarrow> NetworkController \<Rightarrow> NetworkController" where
  "set_proxyAdmin w nc =
     nc\<lparr> networkFile := (networkFile nc)\<lparr> data := (data (networkFile nc))\<lparr> data_proxyAdmin := Some w \<rparr> \<rparr> \<rparr>"

definition set_proxyFactory :: "AddressWrapper \<Rightarrow> NetworkController \<Rightarrow> NetworkController" where
  "set_proxyFactory w nc =
     nc\<lparr> networkFile := (networkFile nc)\<lparr> data := (data (networkFile nc))\<lparr> data_proxyFactory := Some w \<rparr> \<rparr> \<rparr>"

definition tryRegisterProxyAdmin :: "backend \<Rightarrow> string option \<Rightarrow> unit action" where
  "tryRegisterProxyAdmin b adminAddress nc =
     (if \<not> truthy (proxyAdminAddress (networkFile nc)) then
        andThen (if truthy adminAddress then resolve adminAddress
                 else performProject b Project_getAdminAddress)
          (\<lambda>proxyAdminAddress' nc'.
             if truthy proxyAdminAddress'
             then (Inr (), set_proxyAdmin \<lparr> w_address = proxyAdminAddress' \<rparr> nc')
             else (Inr (), nc')) nc
      else (Inr (), nc))"

definition tryRegisterProxyFactory :: "backend \<Rightarrow> string option \<Rightarrow> unit action" where
  "tryRegisterProxyFactory b factoryAddress nc =
     (if \<not> truthy (proxyFactoryAddress (networkFile nc)) then
        andThen (if truthy factoryAddress then resolve factoryAddress
                 else performProject b Project_proxyFactory_address)
          (\<lambda>proxyFactoryAddress' nc'.
             if truthy proxyFactoryAddress'
             then (Inr (), set_proxyFactory \<lparr> w_address = proxyFactoryAddress' \<rparr> nc')
             else (Inr (), nc')) nc
      else (Inr (), nc))"

definition updateZosVersionsIfNeeded :: "env \<Rightarrow> string \<Rightarrow> NetworkController \<Rightarrow> NetworkController" where
  "updateZosVersionsIfNeeded e v nc =
     (let nf = networkFile nc;
          nf1 = (if data_zosversion (data nf) \<noteq> Some (ZOS_VERSION e)
                 then nf\<lparr> data := (data nf)\<lparr> data_zosversion := Some v \<rparr> \<rparr> else nf);
          nf2 = (if pf_zosversion (packageFile nf1) \<noteq> Some (ZOS_VERSION e)
                 then nf1\<lparr> packageFile := (packageFile nf1)\<lparr> pf_zosversion := Some v \<rparr> \<rparr> else nf1)
      in nc\<lparr> networkFile := nf2 \<rparr>)"

definition updateProxyA ::
  "env \<Rightarrow> ProxyInterface \<Rightarrow> (ProxyInterface \<Rightarrow> error + ProxyInterface) \<Rightarrow> unit action" where
  "updateProxyA e proxy fn nc =
     (case updateProxy e proxy fn (networkFile nc) of
        Inl err \<Rightarrow> (Inl err, nc)
      | Inr nf' \<Rightarrow> (Inr (), nc\<lparr> networkFile := nf' \<rparr>))"

text \<open>
  \<open>_setSolidityLibs\<close> links the contract class to the recorded addresses of the
  libraries that its bytecode names; the class of the model carries no links, and the
  method touches neither the record nor the backend. \<open>checkInitialization\<close> only
  warns about an initializer that is not called.
\<close>

definition setSolidityLibs :: "Contract \<Rightarrow> unit action" where
  "setSolidityLibs klass = resolve ()"

definition checkInitialization :: "Contract \<Rightarrow> string option \<Rightarrow> unit action" where
  "checkInitialization klass calledInitMethod = resolve ()"

subsection \<open>The ownership filter\<close>

definition fetchOwnedProxies ::
  "env \<Rightarrow> ZosNetworkFile \<Rightarrow> string option \<Rightarrow> string option \<Rightarrow> string option \<Rightarrow> string option \<Rightarrow>
     ProxyInterface list" where
  "fetchOwnedProxies e nf packageName contractAlias proxyAddress ownerAddress =
     (let proxies = getProxies e nf
            \<lparr> p_alias = None,
              p_package = or_else packageName
                            (if truthy contractAlias then Some (pf_name (packageFile nf)) else None),
              p_contract = contractAlias, p_address = proxyAddress, p_version = None,
              p_implementation = None, p_admin = None, p_kind = Some Upgradeable \<rparr>
      in if proxies = [] then []
         else (let expectedOwner = toChecksumAddress e (or_else ownerAddress (proxyAdminAddress nf))
               in filter (\<lambda>proxy. \<not> truthy (p_admin proxy) \<or> \<not> truthy expectedOwner \<or>
                                   toChecksumAddress e (p_admin proxy) = expectedOwner) proxies))"

subsection \<open>Schema migration\<close>

definition migrate :: "env \<Rightarrow> backend \<Rightarrow> unit action" where
  "migrate e b nc =
     (let owner = (if isPublished (networkFile nc) then appAddress (networkFile nc)
                   else txParams_from nc);
          proxies = fetchOwnedProxies e (networkFile nc) None None None owner
      in if proxies \<noteq> [] then
           andThen (if truthy (proxyAdminAddress (networkFile nc))
                    then perform b (ProxyAdmin_fetch (proxyAdminAddress (networkFile nc)))
                    else perform b ProxyAdmin_deploy)
             (\<lambda>proxyAdmin_address.
                andThen (\<lambda>nc1. if \<not> truthy (proxyAdminAddress (networkFile nc1))
                                then perform b Transactions_awaitConfirmations nc1
                                else (Inr None, nc1))
                  (\<lambda>_. andThen (floating (tryRegisterProxyAdmin b proxyAdmin_address))
                    (\<lambda>_. andThen (allPromisesOrError (map (\<lambda>proxy.
                             andThen (perform b (Proxy_admin (p_address proxy)))
                               (\<lambda>currentAdmin nc2.
                                  if currentAdmin \<noteq> proxyAdmin_address then
                                    (if truthy (appAddress (networkFile nc2))
                                     then perform b (AppProxyMigrator (appAddress (networkFile nc2))
                                                       (p_address proxy) proxyAdmin_address) nc2
                                     else perform b (SimpleProject_changeProxyAdmin
                                                       (p_address proxy) proxyAdmin_address) nc2)
                                  else (Inr None, nc2))) proxies))
                      (\<lambda>_. resolve ())))) nc
         else (Inr (), nc))"

definition migrateZosversionIfNeeded :: "env \<Rightarrow> backend \<Rightarrow> unit action" where
  "migrateZosversionIfNeeded e b nc =
     andThen (if isMigratableZosversion e (data_zosversion (data (networkFile nc)))
              then migrate e b else resolve ())
       (\<lambda>_ nc'. (Inr (), updateZosVersionsIfNeeded e (ZOS_VERSION e) nc')) nc"

subsection \<open>Batch admin change and batch upgrade\<close>

definition changeProxiesAdmin :: "env \<Rightarrow> backend \<Rightarrow> ProxyInterface list \<Rightarrow> string \<Rightarrow> unit action" where
  "changeProxiesAdmin e b proxies newAdmin =
     andThen (allPromisesOrError (map (\<lambda>aProxy.
                andThen (performProject b (Project_changeProxyAdmin (p_address aProxy) newAdmin))
                  (\<lambda>_. updateProxyA e aProxy
                          (\<lambda>anotherProxy. Inr (anotherProxy\<lparr> p_admin := Some newAdmin \<rparr>)))) proxies))
       (\<lambda>_. resolve ())"

definition setProxiesAdmin ::
  "env \<Rightarrow> backend \<Rightarrow> string option \<Rightarrow> string option \<Rightarrow> string option \<Rightarrow> string \<Rightarrow>
     ProxyInterface list action" where
  "setProxiesAdmin e b packageName contractAlias proxyAddress newAdmin =
     andThen (migrateZosversionIfNeeded e b)
       (\<lambda>_ nc.
          let proxies = fetchOwnedProxies e (networkFile nc) packageName contractAlias proxyAddress None
          in if proxies = [] then (Inr [], nc)
             else andThen (fetchOrDeploy b (currentVersion nc))
                    (\<lambda>_. andThen (changeProxiesAdmin e b proxies newAdmin)
                      (\<lambda>_. resolve proxies)) nc)"

definition upgradeProxy ::
  "env \<Rightarrow> backend \<Rightarrow> ProxyInterface \<Rightarrow> string option \<Rightarrow> string list \<Rightarrow> unit action" where
  "upgradeProxy e b proxy initMethod initArgs =
     rethrow (\<lambda>msg. ''Proxy '' @ toContractFullName e (p_package proxy) (p_contract proxy) @ '' at '' @
                     template (p_address proxy) @ '' failed to upgrade with error: '' @ msg)
       (andThen (\<lambda>nc. (getContractClass e (p_package proxy) (p_contract proxy), nc))
          (\<lambda>klass. andThen (setSolidityLibs klass)
            (\<lambda>_. andThen (perform b (Proxy_implementation (p_address proxy)))
            (\<lambda>currentImplementation.
               andThen (performProject b (Project_getImplementation (p_package proxy) (p_contract proxy)))
                 (\<lambda>contractImplementation.
                    andThen (\<lambda>nc. if p_package proxy = Some (pf_name (packageFile (networkFile nc)))
                                   then (Inr (currentVersion nc), nc)
                                   else performProject b (Project_getDependencyVersion (p_package proxy)) nc)
                      (\<lambda>packageVersion.
                         andThen (if currentImplementation \<noteq> contractImplementation
                                  then andThen (performProject b (Project_upgradeProxy (p_address proxy)
                                                  klass initMethod initArgs))
                                         (\<lambda>_. resolve contractImplementation)
                                  else resolve currentImplementation)
                           (\<lambda>newImplementation.
                              updateProxyA e proxy
                                (\<lambda>aProxy. case semanticVersionToString e packageVersion of
                                             Inl err \<Rightarrow> Inl err
                                           | Inr v \<Rightarrow> Inr (aProxy\<lparr> p_implementation := newImplementation,
                                                                  p_version := Some v \<rparr>)))))))))"

definition upgradeProxies ::
  "env \<Rightarrow> backend \<Rightarrow> string option \<Rightarrow> string option \<Rightarrow> string option \<Rightarrow> string option \<Rightarrow>
     string list \<Rightarrow> ProxyInterface list action" where
  "upgradeProxies e b packageName contractAlias proxyAddress initMethod initArgs =
     andThen (migrateZosversionIfNeeded e b)
       (\<lambda>_ nc.
          let proxies = fetchOwnedProxies e (networkFile nc) packageName contractAlias proxyAddress None
          in if proxies = [] then (Inr [], nc)
             else andThen (fetchOrDeploy b (currentVersion nc))
                    (\<lambda>_. andThen (allPromisesOrError
                                     (map (\<lambda>proxy. upgradeProxy e b proxy initMethod initArgs) proxies))
                      (\<lambda>_. resolve proxies)) nc)"

subsection \<open>Proxy creation\<close>

text \<open>
  \<open>createProxyInstance\<close> returns the kind of handle (\<open>Proxy.at\<close> or \<open>MinimalProxy.at\<close>)
  and the address of the instance.
\<close>

definition createProxyInstance ::
  "backend \<Rightarrow> ProxyType option \<Rightarrow> string option \<Rightarrow> Contract \<Rightarrow> string option \<Rightarrow> CreateArgs \<Rightarrow>
     (ProxyType \<times> string option) action" where
  "createProxyInstance b kind salt klass signature createArgs =
     (case kind of
        Some Upgradeable \<Rightarrow>
          andThen (if truthy salt
                   then performProject b (Project_createProxyWithSalt klass salt signature createArgs)
                   else performProject b (Project_createProxy klass createArgs))
            (\<lambda>instance. resolve (Upgradeable, instance))
      | Some Minimal \<Rightarrow>
          (if truthy salt then
             reject (Error ''Cannot create a minimal proxy with a precomputed address, use an Upgradeable proxy instead.'')
           else andThen (performProject b (Project_createMinimalProxy klass createArgs))
                  (\<lambda>instance. resolve (Minimal, instance)))
      | None \<Rightarrow> reject (Error ''Unknown proxy type undefined''))"

definition getProxyDeploymentAddress ::
  "env \<Rightarrow> backend \<Rightarrow> string option \<Rightarrow> string option \<Rightarrow> string option action" where
  "getProxyDeploymentAddress e b salt sender =
     andThen (migrateZosversionIfNeeded e b)
       (\<lambda>_. andThen (\<lambda>nc. fetchOrDeploy b (currentVersion nc) nc)
         (\<lambda>_. andThen (performProject b (Project_getProxyDeploymentAddress salt sender))
           (\<lambda>address. andThen (floating (tryRegisterProxyFactory b None))
             (\<lambda>_. resolve address))))"

definition checkDeploymentAddress :: "env \<Rightarrow> backend \<Rightarrow> string option \<Rightarrow> unit action" where
  "checkDeploymentAddress e b salt =
     andThen (getProxyDeploymentAddress e b salt None)
       (\<lambda>deploymentAddress. andThen (perform b (ZWeb3_getCode deploymentAddress))
         (\<lambda>code. if code \<noteq> Some ''0x''
                  then reject (Error (''Deployment address for salt '' @ template salt @ '' is already in use''))
                  else resolve ()))"

definition updateTruffleDeployedInformation ::
  "backend \<Rightarrow> string option \<Rightarrow> string option \<Rightarrow> unit action" where
  "updateTruffleDeployedInformation b contractAlias implementation nc =
     (case (case contractAlias of None \<Rightarrow> None
            | Some a \<Rightarrow> pf_contract (packageFile (networkFile nc)) a) of
        Some name \<Rightarrow>
          (if name \<noteq> [] then andThen (perform b (Artifact_update name implementation)) (\<lambda>_. resolve ()) nc
           else (Inr (), nc))
      | None \<Rightarrow> (Inr (), nc))"

definition createProxy ::
  "env \<Rightarrow> backend \<Rightarrow> string option \<Rightarrow> string option \<Rightarrow> string option \<Rightarrow> string list \<Rightarrow>
     string option \<Rightarrow> string option \<Rightarrow> string option \<Rightarrow> ProxyType option \<Rightarrow> string option action" where
  "createProxy e b packageName contractAlias initMethod initArgs admin salt signature kind =
     tryFinally
       (andThen (migrateZosversionIfNeeded e b)
          (\<lambda>_. andThen (\<lambda>nc. fetchOrDeploy b (currentVersion nc) nc)
            (\<lambda>_ nc0.
               let packageName' = (if \<not> truthy packageName
                                   then Some (pf_name (packageFile (networkFile nc0))) else packageName)
               in andThen (\<lambda>nc. (getContractClass e packageName' contractAlias, nc))
                    (\<lambda>klass. andThen (setSolidityLibs klass)
                      (\<lambda>_. andThen (checkInitialization klass initMethod)
                      (\<lambda>_. andThen (if truthy salt then checkDeploymentAddress e b salt else resolve ())
                      (\<lambda>_. andThen (createProxyInstance b kind salt klass signature
                                       \<lparr> ca_packageName = packageName', ca_contractName = contractAlias,
                                         ca_initMethod = initMethod, ca_initArgs = initArgs,
                                         ca_admin = admin \<rparr>)
                        (\<lambda>(proxyKind, instance).
                           andThen (perform b (if proxyKind = Upgradeable
                                               then Proxy_implementation instance
                                               else MinimalProxy_implementation instance))
                             (\<lambda>implementationAddress.
                                andThen (\<lambda>nc. if packageName' = Some (pf_name (packageFile (networkFile nc)))
                                               then (Inr (currentVersion nc), nc)
                                               else performProject b (Project_getDependencyVersion packageName') nc)
                                  (\<lambda>packageVersion.
                                     andThen (updateTruffleDeployedInformation b contractAlias instance)
                                       (\<lambda>_ nc.
                                          case semanticVersionToString e packageVersion of
                                            Inl err \<Rightarrow> (Inl err, nc)
                                          | Inr v \<Rightarrow>
                                              (Inr instance,
                                               nc\<lparr> networkFile :=
                                                 addProxy e packageName' contractAlias
                                                   \<lparr> p_alias = None, p_package = None, p_contract = None,
                                                     p_address = instance, p_version = Some v,
                                                     p_implementation = implementationAddress,
                                                     p_admin = or_else admin
                                                                 (proxyAdminAddress (networkFile nc)),
                                                     p_kind = kind \<rparr>
                                                   (networkFile nc) \<rparr>))))))))) nc0)))
       (andThen (tryRegisterProxyAdmin b None) (\<lambda>_. tryRegisterProxyFactory b None))"

section \<open>What an operation touches\<close>

text \<open>
  The calls that address one proxy, with the address they name, and the calls that
  create a proxy.
\<close>

fun call_target :: "call \<Rightarrow> string option option" where
  "call_target (Project_upgradeProxy a klass initMethod initArgs) = Some a"
| "call_target (Project_changeProxyAdmin a newAdmin) = Some a"
| "call_target (Proxy_implementation a) = Some a"
| "call_target (MinimalProxy_implementation a) = Some a"
| "call_target (Proxy_admin a) = Some a"
| "call_target (AppProxyMigrator app a newAdmin) = Some a"
| "call_target (SimpleProject_changeProxyAdmin a newAdmin) = Some a"
| "call_target c = None"

fun is_creation :: "call \<Rightarrow> bool" where
  "is_creation (Project_createProxyWithSalt klass salt signature createArgs) = True"
| "is_creation (Project_createProxy klass createArgs) = True"
| "is_creation (Project_createMinimalProxy klass createArgs) = True"
| "is_creation c = False"

text \<open>The calls made between two states of the controller.\<close>

definition new_calls :: "NetworkController \<Rightarrow> NetworkController \<Rightarrow> call list" where
  "new_calls nc nc' = drop (length (calls nc)) (calls nc')"

definition recorded :: "NetworkController \<Rightarrow> (string \<times> ProxyInterface list) list" where
  "recorded nc = data_proxies (data (networkFile nc))"

text \<open>
  The entry at place \<open>i\<close> of the \<open>j\<close>-th full name is untouched between two states: no
  call made in between names its address, and the same entry is at the same place
  afterwards.
\<close>

definition untouched :: "NetworkController \<Rightarrow> NetworkController \<Rightarrow> nat \<Rightarrow> nat \<Rightarrow> bool" where
  "untouched nc nc' j i =
     (list_all (\<lambda>c. call_target c \<noteq> Some (p_address (snd (recorded nc ! j) ! i))) (new_calls nc nc') \<and>
      j < length (recorded nc') \<and> fst (recorded nc' ! j) = fst (recorded nc ! j) \<and>
      i < length (snd (recorded nc' ! j)) \<and>
      snd (recorded nc' ! j) ! i = snd (recorded nc ! j) ! i)"

text \<open>
  A frame: the calls made before are still the first calls, the calls made in between
  create no proxy and name addresses of \<open>T\<close> only, and the recorded proxies keep their
  places, each entry being the same or one with an address of \<open>A\<close> that kept its
  address.
\<close>

definition quiet :: "string option set \<Rightarrow> call \<Rightarrow> bool" where
  "quiet T c = (\<not> is_creation c \<and> (case call_target c of None \<Rightarrow> True | Some a \<Rightarrow> a \<in> T))"

definition entry_rel :: "string option set \<Rightarrow> ProxyInterface \<Rightarrow> ProxyInterface \<Rightarrow> bool" where
  "entry_rel A p p' = (p' = p \<or> (p_address p \<in> A \<and> p_address p' = p_address p))"

definition proxies_rel ::
  "string option set \<Rightarrow> (string \<times> ProxyInterface list) list \<Rightarrow> (string \<times> ProxyInterface list) list \<Rightarrow> bool" where
  "proxies_rel A al al' =
     (map fst al' = map fst al \<and> list_all2 (list_all2 (entry_rel A)) (map snd al) (map snd al'))"

definition frame :: "string option set \<Rightarrow> string option set \<Rightarrow> NetworkController \<Rightarrow> NetworkController \<Rightarrow> bool" where
  "frame T A nc nc' =
     (take (length (calls nc)) (calls nc') = calls nc \<and>
      list_all (quiet T) (new_calls nc nc') \<and>
      proxies_rel A (recorded nc) (recorded nc'))"

section \<open>A concrete environment and concrete records\<close>

text \<open>
  The naming helpers build and split \<open>package/contract\<close>. The digest, the library
  scan, the artifact lookup and the checksum are small stand-ins, used only to run the
  definitions on examples; the checksum of a missing address is falsy, which is the case
  that the guard \<open>!expectedOwner\<close> of \<open>_fetchOwnedProxies\<close> is there for.
\<close>

definition example_toContractFullName :: "string option \<Rightarrow> string option \<Rightarrow> string" where
  "example_toContractFullName packageName cname =
     (if \<not> truthy packageName then template cname
      else template packageName @ ''/'' @ template cname)"

definition example_fromContractFullName :: "string \<Rightarrow> string option \<times> string option" where
  "example_fromContractFullName fullName =
     (if fullName = [] then (None, None)
      else (let r = rev fullName;
                cname = rev (takeWhile (\<lambda>c. c \<noteq> CHR ''/'') r);
                rest = dropWhile (\<lambda>c. c \<noteq> CHR ''/'') r
            in if rest = [] then (None, Some cname) else (Some (rev (tl rest)), Some cname)))"

definition example_env :: env where
  "example_env = \<lparr>
     bytecodeDigest = (\<lambda>b. ''digest:'' @ b),
     getSolidityLibNames = (\<lambda>b. if b = ''0xuseslib'' then [''SafeMath''] else []),
     getFromLocal = (\<lambda>n. \<lparr> contractName = n, bytecode = ''0x'' @ n \<rparr>),
     getContractClass = (\<lambda>p c. Inr \<lparr> contractName = template c, bytecode = ''0x'' @ template c \<rparr>),
     toContractFullName = example_toContractFullName,
     fromContractFullName = example_fromContractFullName,
     toChecksumAddress = (\<lambda>a. if truthy a then a else None),
     semanticVersionToString = (\<lambda>v. case v of None \<Rightarrow> Inl (Error ''Cannot handle version of type undefined'')
                                        | Some s \<Rightarrow> Inr s),
     isMigratableZosversion = (\<lambda>v. v \<noteq> Some ''2.2''),
     ZOS_VERSION = ''2.2'' \<rparr>"

definition example_packageFile :: ZosPackageFile where
  "example_packageFile = \<lparr> pf_name = ''app'', pf_version = ''1.0.0'',
     pf_contracts = [(''Token'', ''Token'')], pf_dependencies = [],
     pf_isPublished = False, pf_zosversion = Some ''2.2'' \<rparr>"

definition empty_data :: NetworkData where
  "empty_data = \<lparr> data_contracts = [], data_solidityLibs = [], data_proxies = [],
     data_zosversion = Some ''2.2'', data_proxyAdmin = None, data_proxyFactory = None,
     data_app = None, data_package = None, data_provider = None,
     data_version = Some ''1.0.0'', data_frozen = None, data_dependencies = None \<rparr>"

definition example_networkFile :: "NetworkData \<Rightarrow> ZosNetworkFile" where
  "example_networkFile d = \<lparr> packageFile = example_packageFile, fileName = ''zos.test.json'', data = d \<rparr>"


definition example_contract :: ContractInterface where
  "example_contract = \<lparr> c_address = Some ''0x22'', c_constructorCode = None,
     c_localBytecodeHash = Some ''digest:0xToken'', c_deployedBytecodeHash = None,
     c_bodyBytecodeHash = None, c_types = None, c_storage = None, c_warnings = None \<rparr>"

definition example_proxy :: "string \<Rightarrow> string option \<Rightarrow> ProxyType option \<Rightarrow> ProxyInterface" where
  "example_proxy a adm k = \<lparr> p_alias = None, p_package = None, p_contract = None,
     p_address = Some a, p_version = Some ''1.0.0'', p_implementation = Some ''0x99'',
     p_admin = adm, p_kind = k \<rparr>"

definition example_identity :: "string \<Rightarrow> ProxyInterface" where
  "example_identity a = \<lparr> p_alias = None, p_package = Some ''app'', p_contract = Some ''Token'',
     p_address = Some a, p_version = None, p_implementation = None, p_admin = None,
     p_kind = None \<rparr>"

definition example_setAdmin :: "ProxyInterface \<Rightarrow> error + ProxyInterface" where
  "example_setAdmin p = Inr (p\<lparr> p_admin := Some ''0xnew'' \<rparr>)"

definition example_proxies_data :: NetworkData where
  "example_proxies_data = empty_data\<lparr> data_proxies :=
     [(''app/Token'', [example_proxy ''0xa1'' None None, example_proxy ''0xa2'' (Some ''0xadm'') None])] \<rparr>"

definition example_deps_data :: NetworkData where
  "example_deps_data = empty_data\<lparr> data_dependencies :=
     Some [(''lib'', \<lparr> d_name = Missing, d_package = Holds (Some ''0xp1''),
                      d_version = Holds (Some ''1.0.0''), d_customDeploy = Holds (Some True) \<rparr>)] \<rparr>"

definition example_deployed_data :: NetworkData where
  "example_deployed_data = empty_data\<lparr> data_contracts := [(''Token'', example_contract)] \<rparr>"







text \<open>A backend whose calls all succeed, and a controller fresh from its constructor.\<close>

definition example_backend :: backend where
  "example_backend history c =
     (case c of
        ZWeb3_getCode a \<Rightarrow> Inr (Some ''0x'')
      | Project_getProxyDeploymentAddress salt sender \<Rightarrow> Inr (Some ''0xd1'')
      | _ \<Rightarrow> Inr None)"

definition example_controller :: "NetworkData \<Rightarrow> NetworkController" where
  "example_controller d = \<lparr> networkFile = example_networkFile d, txParams_from = Some ''0xsender'',
     project = False, calls = [] \<rparr>"

definition example_owned_data :: NetworkData where
  "example_owned_data = empty_data\<lparr>
     data_proxyAdmin := Some \<lparr> w_address = Some ''0xadm'' \<rparr>,
     data_proxies := [(''app/Token'', [example_proxy ''0xa1'' None None,
                                   example_proxy ''0xa2'' (Some ''0xother'') None])] \<rparr>"

text \<open>The same record at a schema version that asks for the migration.\<close>

definition example_legacy_data :: NetworkData where
  "example_legacy_data = example_owned_data\<lparr> data_zosversion := Some ''2'' \<rparr>"

definition example_minimal_data :: NetworkData where
  "example_minimal_data = empty_data\<lparr>
     data_proxies := [(''app/Token'', [example_proxy ''0xa1'' None None,
                                   example_proxy ''0xa2'' None (Some Minimal)])] \<rparr>"

section \<open>Lists and the record operations\<close>

lemma findIndex_None: "findIndex P xs = None \<longleftrightarrow> (\<forall>x \<in> set xs. \<not> P x)"
  by (induction xs) auto

lemma findIndex_Some:
  "findIndex P xs = Some i \<longleftrightarrow> i < length xs \<and> P (xs ! i) \<and> (\<forall>j < i. \<not> P (xs ! j))"
proof (induction xs arbitrary: i)
  case Nil
  then show ?case by simp
next
  case (Cons x xs)
  show ?case
  proof (cases "P x")
    case True
    then show ?thesis by (cases i) auto
  next
    case False
    show ?thesis
    proof (cases i)
      case 0
      with False show ?thesis by simp
    next
      case (Suc k)
      have "(\<forall>j < Suc k. \<not> P ((x # xs) ! j)) \<longleftrightarrow> (\<forall>j < k. \<not> P (xs ! j))"
        using False by (auto simp: less_Suc_eq_0_disj)
      with False Suc Cons.IH [of k] show ?thesis by auto
    qed
  qed
qed

lemma proxiesOf_setProxies:
  "proxiesOf (setProxies k v nf) k' = (if k' = k then v else proxiesOf nf k')"
  by (simp add: proxiesOf_def setProxies_def update_conv')

lemma map_of_setProxies:
  "map_of (data_proxies (data (setProxies k v nf))) = (map_of (data_proxies (data nf)))(k \<mapsto> v)"
  by (simp add: setProxies_def update_conv')

lemma indexOfProxy_None:
  "indexOfProxy nf fullname addr = None \<longleftrightarrow>
     (\<forall>p \<in> set (proxiesOf nf fullname). \<not> matchesAddress addr p)"
  by (auto simp: indexOfProxy_def proxiesOf_def findIndex_None split: option.splits)

lemma indexOfProxy_Some:
  "indexOfProxy nf fullname addr = Some i \<longleftrightarrow>
     i < length (proxiesOf nf fullname) \<and> matchesAddress addr (proxiesOf nf fullname ! i) \<and>
     (\<forall>j < i. \<not> matchesAddress addr (proxiesOf nf fullname ! j))"
  by (auto simp: indexOfProxy_def proxiesOf_def findIndex_Some split: option.splits)

lemma indexOfProxy_key:
  "indexOfProxy nf fullname addr = Some i \<Longrightarrow> fullname \<in> set (map fst (data_proxies (data nf)))"
proof -
  assume "indexOfProxy nf fullname addr = Some i"
  then have "map_of (data_proxies (data nf)) fullname \<noteq> None"
    by (auto simp: indexOfProxy_def split: option.splits)
  then show ?thesis by (simp add: map_of_eq_None_iff)
qed

section \<open>Bytecode identity\<close>




section \<open>Updating and removing a proxy\<close>

text \<open>
  C6: \<open>updateProxy\<close> throws the not-found error when no proxy recorded under the full
  name of \<open>(package, contract)\<close> has the given address. Otherwise the first entry with
  that address, at position \<open>i\<close>, is the located one: when \<open>fn\<close> returns for it, the
  call succeeds and the entry is replaced by the value of \<open>fn\<close>, so that the list under
  that full name changes at \<open>i\<close> only, every other full name keeps its list, the keys
  keep their order, and nothing else of the record changes; when \<open>fn\<close> throws, so does
  \<open>updateProxy\<close>.
\<close>

theorem updateProxy_spec:
  "((\<forall>p \<in> set (proxiesOf nf (toContractFullName e (p_package proxy) (p_contract proxy))).
        \<not> matchesAddress (p_address proxy) p) \<longrightarrow>
      updateProxy e proxy fn nf =
        Inl (Error (''Proxy '' @ toContractFullName e (p_package proxy) (p_contract proxy) @ '' at '' @
                    template (p_address proxy) @ '' not found in network file'')))
   \<and> ((\<exists>p \<in> set (proxiesOf nf (toContractFullName e (p_package proxy) (p_contract proxy))).
         matchesAddress (p_address proxy) p) \<longrightarrow>
       (\<exists>i. i < length (proxiesOf nf (toContractFullName e (p_package proxy) (p_contract proxy))) \<and>
          matchesAddress (p_address proxy)
            (proxiesOf nf (toContractFullName e (p_package proxy) (p_contract proxy)) ! i) \<and>
          (\<forall>j < i. \<not> matchesAddress (p_address proxy)
            (proxiesOf nf (toContractFullName e (p_package proxy) (p_contract proxy)) ! j)) \<and>
          (case fn (proxiesOf nf (toContractFullName e (p_package proxy) (p_contract proxy)) ! i) of
             Inl err \<Rightarrow> updateProxy e proxy fn nf = Inl err
           | Inr updated \<Rightarrow>
               (\<exists>nf'. updateProxy e proxy fn nf = Inr nf' \<and>
                  proxiesOf nf' (toContractFullName e (p_package proxy) (p_contract proxy)) =
                    (proxiesOf nf (toContractFullName e (p_package proxy) (p_contract proxy)))
                      [i := updated] \<and>
                  (\<forall>k. k \<noteq> toContractFullName e (p_package proxy) (p_contract proxy) \<longrightarrow>
                       map_of (data_proxies (data nf')) k = map_of (data_proxies (data nf)) k) \<and>
                  map fst (data_proxies (data nf')) = map fst (data_proxies (data nf)) \<and>
                  nf' = nf\<lparr> data := (data nf)\<lparr> data_proxies := data_proxies (data nf') \<rparr> \<rparr>))))"
proof -
  define fullname where "fullname = toContractFullName e (p_package proxy) (p_contract proxy)"
  define ps where "ps = proxiesOf nf fullname"
  have none: "(\<forall>p \<in> set ps. \<not> matchesAddress (p_address proxy) p) \<Longrightarrow>
      updateProxy e proxy fn nf =
        Inl (Error (''Proxy '' @ fullname @ '' at '' @ template (p_address proxy) @
                    '' not found in network file''))"
    using indexOfProxy_None [of nf fullname "p_address proxy"]
    by (simp add: updateProxy_def fullname_def ps_def)
  have some: "\<exists>i. i < length ps \<and>
          matchesAddress (p_address proxy) (ps ! i) \<and>
          (\<forall>j < i. \<not> matchesAddress (p_address proxy) (ps ! j)) \<and>
          (case fn (ps ! i) of
             Inl err \<Rightarrow> updateProxy e proxy fn nf = Inl err
           | Inr updated \<Rightarrow>
               (\<exists>nf'. updateProxy e proxy fn nf = Inr nf' \<and>
                  proxiesOf nf' fullname = ps[i := updated] \<and>
                  (\<forall>k. k \<noteq> fullname \<longrightarrow>
                       map_of (data_proxies (data nf')) k = map_of (data_proxies (data nf)) k) \<and>
                  map fst (data_proxies (data nf')) = map fst (data_proxies (data nf)) \<and>
                  nf' = nf\<lparr> data := (data nf)\<lparr> data_proxies := data_proxies (data nf') \<rparr> \<rparr>))"
    if ex: "\<exists>p \<in> set ps. matchesAddress (p_address proxy) p"
  proof -
    from ex have "indexOfProxy nf fullname (p_address proxy) \<noteq> None"
      by (simp add: indexOfProxy_None ps_def)
    then obtain i where i: "indexOfProxy nf fullname (p_address proxy) = Some i" by blast
    then have props: "i < length ps" "matchesAddress (p_address proxy) (ps ! i)"
      "\<forall>j < i. \<not> matchesAddress (p_address proxy) (ps ! j)"
      by (simp_all add: indexOfProxy_Some ps_def)
    have key: "fullname \<in> set (map fst (data_proxies (data nf)))"
      using i by (rule indexOfProxy_key)
    have "case fn (ps ! i) of
             Inl err \<Rightarrow> updateProxy e proxy fn nf = Inl err
           | Inr updated \<Rightarrow>
               (\<exists>nf'. updateProxy e proxy fn nf = Inr nf' \<and>
                  proxiesOf nf' fullname = ps[i := updated] \<and>
                  (\<forall>k. k \<noteq> fullname \<longrightarrow>
                       map_of (data_proxies (data nf')) k = map_of (data_proxies (data nf)) k) \<and>
                  map fst (data_proxies (data nf')) = map fst (data_proxies (data nf)) \<and>
                  nf' = nf\<lparr> data := (data nf)\<lparr> data_proxies := data_proxies (data nf') \<rparr> \<rparr>)"
    proof (cases "fn (ps ! i)")
      case (Inl err)
      then show ?thesis
        using i by (simp add: updateProxy_def fullname_def [symmetric] ps_def [symmetric])
    next
      case (Inr updated)
      define nf' where "nf' = setProxies fullname (ps[i := updated]) nf"
      have upd: "updateProxy e proxy fn nf = Inr nf'"
        using i Inr by (simp add: updateProxy_def fullname_def [symmetric] ps_def [symmetric] nf'_def)
      have "proxiesOf nf' fullname = ps[i := updated]"
        by (simp add: nf'_def proxiesOf_setProxies)
      moreover have "\<forall>k. k \<noteq> fullname \<longrightarrow>
          map_of (data_proxies (data nf')) k = map_of (data_proxies (data nf)) k"
        by (simp add: nf'_def map_of_setProxies)
      moreover have "map fst (data_proxies (data nf')) = map fst (data_proxies (data nf))"
        using key by (simp add: nf'_def setProxies_def update_keys)
      moreover have "nf' = nf\<lparr> data := (data nf)\<lparr> data_proxies := data_proxies (data nf') \<rparr> \<rparr>"
        by (simp add: nf'_def setProxies_def)
      ultimately show ?thesis using upd Inr by simp
    qed
    with props show ?thesis by blast
  qed
  show ?thesis
    unfolding fullname_def [symmetric] ps_def [symmetric]
    using none some by blast
qed

theorem updateProxy_spec_witness:
  "(\<exists>nf'. updateProxy example_env (example_identity ''0xa2'') example_setAdmin
             (example_networkFile example_proxies_data) = Inr nf' \<and>
      proxiesOf nf' ''app/Token'' =
        [example_proxy ''0xa1'' None None, example_proxy ''0xa2'' (Some ''0xnew'') None])
   \<and> updateProxy example_env (example_identity ''0xa3'') example_setAdmin
        (example_networkFile example_proxies_data) =
      Inl (Error ''Proxy app/Token at 0xa3 not found in network file'')"
  using updateProxy_spec [where e = example_env and nf = "example_networkFile example_proxies_data"
      and fn = example_setAdmin and proxy = "example_identity ''0xa2''"]
    updateProxy_spec [where e = example_env and nf = "example_networkFile example_proxies_data"
      and fn = example_setAdmin and proxy = "example_identity ''0xa3''"]
  by (simp add: updateProxy_def indexOfProxy_def proxiesOf_def setProxies_def matchesAddress_def
      example_env_def example_toContractFullName_def truthy_def template_def
      example_networkFile_def example_proxies_data_def empty_data_def example_proxy_def
      example_setAdmin_def example_identity_def)

text \<open>
  C8: \<open>removeProxy\<close> returns the record as it is when no proxy under the full name has
  the address; when the only proxy under the full name has the address, the full name
  is no longer a key of \<open>proxies\<close> afterwards (and the other keys keep their lists);
  when more proxies are listed there, the first with that address is cut out and the key
  stays.
\<close>

theorem removeProxy_spec:
  "((\<forall>p \<in> set (proxiesOf nf (toContractFullName e thepackage contractAlias)). \<not> matchesAddress addr p) \<longrightarrow>
      removeProxy e thepackage contractAlias addr nf = nf)
   \<and> ((\<exists>p. proxiesOf nf (toContractFullName e thepackage contractAlias) = [p] \<and> matchesAddress addr p) \<longrightarrow>
        map_of (data_proxies (data (removeProxy e thepackage contractAlias addr nf)))
          (toContractFullName e thepackage contractAlias) = None \<and>
        toContractFullName e thepackage contractAlias \<notin>
          fst ` set (data_proxies (data (removeProxy e thepackage contractAlias addr nf))) \<and>
        (\<forall>k. k \<noteq> toContractFullName e thepackage contractAlias \<longrightarrow>
           map_of (data_proxies (data (removeProxy e thepackage contractAlias addr nf))) k =
           map_of (data_proxies (data nf)) k))
   \<and> (\<forall>i. indexOfProxy nf (toContractFullName e thepackage contractAlias) addr = Some i \<and>
          1 < length (proxiesOf nf (toContractFullName e thepackage contractAlias)) \<longrightarrow>
        map_of (data_proxies (data (removeProxy e thepackage contractAlias addr nf)))
          (toContractFullName e thepackage contractAlias) =
          Some (take i (proxiesOf nf (toContractFullName e thepackage contractAlias)) @
                drop (Suc i) (proxiesOf nf (toContractFullName e thepackage contractAlias))))"
proof -
  define fullname where "fullname = toContractFullName e thepackage contractAlias"
  define ps where "ps = proxiesOf nf fullname"
  have a: "removeProxy e thepackage contractAlias addr nf = nf"
    if "\<forall>p \<in> set ps. \<not> matchesAddress addr p"
    using that indexOfProxy_None [of nf fullname addr]
    by (simp add: removeProxy_def fullname_def ps_def)
  have b: "map_of (data_proxies (data (removeProxy e thepackage contractAlias addr nf))) fullname = None \<and>
           fullname \<notin> fst ` set (data_proxies (data (removeProxy e thepackage contractAlias addr nf))) \<and>
           (\<forall>k. k \<noteq> fullname \<longrightarrow>
              map_of (data_proxies (data (removeProxy e thepackage contractAlias addr nf))) k =
              map_of (data_proxies (data nf)) k)"
    if "\<exists>p. ps = [p] \<and> matchesAddress addr p"
  proof -
    from that obtain p where p: "ps = [p]" "matchesAddress addr p" by blast
    then have "indexOfProxy nf fullname addr = Some 0"
      by (simp add: indexOfProxy_Some ps_def [symmetric])
    then have r: "removeProxy e thepackage contractAlias addr nf =
        (setProxies fullname [] nf)\<lparr> data := (data (setProxies fullname [] nf))\<lparr> data_proxies :=
           AList.delete fullname (data_proxies (data (setProxies fullname [] nf))) \<rparr> \<rparr>"
      using p by (simp add: removeProxy_def fullname_def [symmetric] ps_def [symmetric]
          splice1_def proxiesOf_setProxies Let_def)
    show ?thesis
      by (simp add: r delete_conv' delete_notin_dom map_of_setProxies)
  qed
  have c: "map_of (data_proxies (data (removeProxy e thepackage contractAlias addr nf))) fullname =
             Some (take i ps @ drop (Suc i) ps)"
    if "indexOfProxy nf fullname addr = Some i" "1 < length ps" for i
  proof -
    from that have "i < length ps" by (simp add: indexOfProxy_Some ps_def)
    with that(2) have ne: "length (splice1 i ps) \<noteq> 0" by (simp add: splice1_def)
    have "removeProxy e thepackage contractAlias addr nf = setProxies fullname (splice1 i ps) nf"
      using that(1) ne
      by (simp add: removeProxy_def fullname_def [symmetric] ps_def [symmetric]
          proxiesOf_setProxies Let_def)
    then show ?thesis
      by (simp add: map_of_setProxies splice1_def)
  qed
  show ?thesis
    unfolding fullname_def [symmetric] ps_def [symmetric]
    using a b c by blast
qed


theorem removeProxy_spec_witness:
  "removeProxy example_env (Some ''app'') (Some ''Token'') (Some ''0xa3'')
     (example_networkFile example_proxies_data) = example_networkFile example_proxies_data
   \<and> data_proxies (data (removeProxy example_env (Some ''app'') (Some ''Token'') (Some ''0xa1'')
        (example_networkFile (empty_data\<lparr> data_proxies :=
           [(''app/Token'', [example_proxy ''0xa1'' None None])] \<rparr>)))) = []
   \<and> data_proxies (data (removeProxy example_env (Some ''app'') (Some ''Token'') (Some ''0xa1'')
        (example_networkFile example_proxies_data))) =
       [(''app/Token'', [example_proxy ''0xa2'' (Some ''0xadm'') None])]"
  using removeProxy_spec [where e = example_env and thepackage = "Some ''app''" and contractAlias = "Some ''Token''"
      and addr = "Some ''0xa3''" and nf = "example_networkFile example_proxies_data"]
    removeProxy_spec [where e = example_env and thepackage = "Some ''app''" and contractAlias = "Some ''Token''"
      and addr = "Some ''0xa1''" and nf = "example_networkFile (empty_data\<lparr> data_proxies :=
           [(''app/Token'', [example_proxy ''0xa1'' None None])] \<rparr>)"]
    removeProxy_spec [where e = example_env and thepackage = "Some ''app''" and contractAlias = "Some ''Token''"
      and addr = "Some ''0xa1''" and nf = "example_networkFile example_proxies_data"]
  by (simp add: removeProxy_def indexOfProxy_def proxiesOf_def setProxies_def matchesAddress_def
      splice1_def example_env_def example_toContractFullName_def truthy_def template_def
      example_networkFile_def example_proxies_data_def empty_data_def example_proxy_def)

section \<open>Recording a dependency\<close>

text \<open>
  C9: when \<open>semanticVersionToString\<close> returns \<open>v\<close> for the supplied version,
  \<open>setDependency\<close> returns without an exception and stores under the name an entry
  with the keys \<open>package\<close>, holding the supplied package, \<open>version\<close>, holding \<open>v\<close>,
  and \<open>customDeploy\<close>, holding the supplied value when it is truthy and \<open>undefined\<close>
  otherwise, and with no other key; in JSON, where a key that holds \<open>undefined\<close> is
  left out, the entry has \<open>customDeploy\<close> only when the supplied value is truthy. The
  entry replaces whatever was stored under the name, so an earlier
  \<open>customDeploy = true\<close> is gone when none is supplied. The entry of every other name
  stays what it was, \<open>getDependency\<close> returning \<open>{}\<close> for a name without entry (also
  where it returned \<open>null\<close> before, the record having had no \<open>dependencies\<close> object),
  and no other part of the record changes.
\<close>

theorem setDependency_spec:
  "semanticVersionToString e (key_value (d_version dep)) = Inr v \<longrightarrow>
     (\<exists>nf'. setDependency e name dep nf = (None, nf') \<and>
        getDependency nf' name =
          Some \<lparr> d_name = Missing, d_package = Holds (key_value (d_package dep)),
                 d_version = Holds (Some v),
                 d_customDeploy = Holds (if key_value (d_customDeploy dep) = Some True
                                         then Some True else None) \<rparr> \<and>
        map_option (jsonify \<circ> dependency_object) (getDependency nf' name) =
          Some (JObject ((case key_value (d_package dep) of
                            None \<Rightarrow> []
                          | Some thepackage \<Rightarrow> [(''package'', JString thepackage)]) @
                         [(''version'', JString v)] @
                         (if key_value (d_customDeploy dep) = Some True
                          then [(''customDeploy'', JBoolean True)] else []))) \<and>
        (\<forall>other. other \<noteq> name \<longrightarrow>
           map_of (dependencies nf') other = map_of (dependencies nf) other \<and>
           getDependency nf' other =
             Some (case map_of (dependencies nf) other of
                     None \<Rightarrow> no_dependency_keys
                   | Some dependency \<Rightarrow> dependency)) \<and>
        nf' = nf\<lparr> data := (data nf)\<lparr> data_dependencies := data_dependencies (data nf') \<rparr> \<rparr>)"
  by (auto simp: setDependency_def getDependency_def dependencies_def update_conv' Let_def
      dependency_object_def key_entry_def split: option.splits)

theorem setDependency_spec_witness:
  "semanticVersionToString example_env (Some ''1.1.0'') = Inr ''1.1.0''
   \<and> map_option d_customDeploy (getDependency (example_networkFile example_deps_data) ''lib'') =
       Some (Holds (Some True))
   \<and> getDependency (example_networkFile empty_data) ''other'' = None
   \<and> (\<exists>nf'. setDependency example_env ''lib''
          \<lparr> d_name = Missing, d_package = Holds (Some ''0xp2''), d_version = Holds (Some ''1.1.0''),
            d_customDeploy = Missing \<rparr> (example_networkFile example_deps_data) = (None, nf') \<and>
        getDependency nf' ''lib'' =
          Some \<lparr> d_name = Missing, d_package = Holds (Some ''0xp2''), d_version = Holds (Some ''1.1.0''),
                 d_customDeploy = Holds None \<rparr> \<and>
        map_option (jsonify \<circ> dependency_object) (getDependency nf' ''lib'') =
          Some (JObject [(''package'', JString ''0xp2''), (''version'', JString ''1.1.0'')]))
   \<and> (\<exists>nf'. setDependency example_env ''lib''
          \<lparr> d_name = Missing, d_package = Holds (Some ''0xp2''), d_version = Holds (Some ''1.1.0''),
            d_customDeploy = Missing \<rparr> (example_networkFile empty_data) = (None, nf') \<and>
        getDependency nf' ''other'' = Some no_dependency_keys)"
proof -
  let ?dep = "\<lparr> d_name = Missing, d_package = Holds (Some ''0xp2''), d_version = Holds (Some ''1.1.0''),
            d_customDeploy = Missing \<rparr>"
  have a: "semanticVersionToString example_env (Some ''1.1.0'') = Inr ''1.1.0''"
    by (simp add: example_env_def)
  have a': "semanticVersionToString example_env (key_value (d_version ?dep)) = Inr ''1.1.0''"
    by (simp add: example_env_def)
  have b: "map_option d_customDeploy (getDependency (example_networkFile example_deps_data) ''lib'') =
       Some (Holds (Some True))"
    by (simp add: getDependency_def example_networkFile_def example_deps_data_def empty_data_def)
  have b': "getDependency (example_networkFile empty_data) ''other'' = None"
    by (simp add: getDependency_def example_networkFile_def empty_data_def)
  have c: "\<exists>nf'. setDependency example_env ''lib'' ?dep (example_networkFile example_deps_data) = (None, nf') \<and>
        getDependency nf' ''lib'' =
          Some \<lparr> d_name = Missing, d_package = Holds (Some ''0xp2''), d_version = Holds (Some ''1.1.0''),
                 d_customDeploy = Holds None \<rparr> \<and>
        map_option (jsonify \<circ> dependency_object) (getDependency nf' ''lib'') =
          Some (JObject [(''package'', JString ''0xp2''), (''version'', JString ''1.1.0'')])"
    using a' setDependency_spec [where e = example_env and name = "''lib''" and v = "''1.1.0''"
      and nf = "example_networkFile example_deps_data" and dep = ?dep]
    by auto
  have d: "\<exists>nf'. setDependency example_env ''lib'' ?dep (example_networkFile empty_data) = (None, nf') \<and>
        getDependency nf' ''other'' = Some no_dependency_keys"
    using a' setDependency_spec [where e = example_env and name = "''lib''" and v = "''1.1.0''"
      and nf = "example_networkFile empty_data" and dep = ?dep]
    by (auto simp: dependencies_def example_networkFile_def empty_data_def)
  from a b b' c d show ?thesis by blast
qed
section \<open>Version satisfaction\<close>

text \<open>
  C4, as the spec states it, fails for a requirement that is present but empty: the
  empty string is falsy, so every version string passes, also one that \<open>semver.coerce\<close>
  cannot read and that therefore satisfies no range.
\<close>

theorem satisfiesVersion_counterexample:
  "satisfiesVersion semver_coerce semver_satisfies ''abc'' (Some '''')
   \<and> Some '''' \<noteq> (None :: string option)
   \<and> ''abc'' \<noteq> ''''
   \<and> \<not> semver_satisfies (semver_coerce ''abc'') ''''"
  by (simp add: satisfiesVersion_def truthy_def semver_satisfies_def semver_coerce_def
      parse_version_def)

text \<open>
  C4, amended: \<open>satisfiesVersion(version, requirement)\<close> is true exactly when the
  requirement is absent or the empty string, or the version and the requirement are the
  same string, or \<open>semver.satisfies\<close> accepts the coerced version for the requirement.
  Hence \<open>satisfiesVersion("2.0.0", "^1.0.0")\<close> is false as soon as semver finds 2.0.0
  outside \<open>^1.0.0\<close>, and \<open>satisfiesVersion("1.0.0", undefined)\<close> is true.
\<close>

theorem satisfiesVersion_iff:
  "(satisfiesVersion coerce satisfies version requirement \<longleftrightarrow>
      requirement = None \<or> requirement = Some [] \<or> requirement = Some version \<or>
      (\<exists>r. requirement = Some r \<and> satisfies (coerce version) r))
   \<and> (\<not> satisfies (coerce ''2.0.0'') ''^1.0.0'' \<longrightarrow>
        \<not> satisfiesVersion coerce satisfies ''2.0.0'' (Some ''^1.0.0''))
   \<and> satisfiesVersion coerce satisfies ''1.0.0'' None"
  by (auto simp: satisfiesVersion_def truthy_def split: option.splits)

theorem satisfiesVersion_iff_witness:
  "\<not> semver_satisfies (semver_coerce ''2.0.0'') ''^1.0.0''
   \<and> \<not> satisfiesVersion semver_coerce semver_satisfies ''2.0.0'' (Some ''^1.0.0'')
   \<and> satisfiesVersion semver_coerce semver_satisfies ''1.0.0'' None
   \<and> satisfiesVersion semver_coerce semver_satisfies ''1.2.5'' (Some ''^1.2.0'')"
proof -
  have a: "\<not> semver_satisfies (semver_coerce ''2.0.0'') ''^1.0.0''"
    by (simp add: semver_satisfies_def semver_coerce_def parse_version_def parse_number_def
        digit_of_def version_less_def caret_upper_def)
  have b: "semver_satisfies (semver_coerce ''1.2.5'') ''^1.2.0''"
    by (simp add: semver_satisfies_def semver_coerce_def parse_version_def parse_number_def
        digit_of_def version_less_def caret_upper_def)
  from a b
    satisfiesVersion_iff [of semver_coerce semver_satisfies "''2.0.0''" "Some ''^1.0.0''"]
    satisfiesVersion_iff [of semver_coerce semver_satisfies "''1.2.5''" "Some ''^1.2.0''"]
  show ?thesis by simp
qed

section \<open>Writing the record\<close>










section \<open>Correctness of the push delta\<close>

lemma set_uniq_from: "set (uniq_from seen xs) = set xs - set seen"
  by (induction xs arbitrary: seen) auto

lemma set_uniq: "set (uniq xs) = set xs"
  by (simp add: uniq_def set_uniq_from)

lemma set_intersection: "set (intersection xs ys) = set xs \<inter> set ys"
  by (auto simp: intersection_def set_uniq)

lemma intersection_nonempty: "intersection xs ys \<noteq> [] \<longleftrightarrow> (\<exists>x \<in> set xs. x \<in> set ys)"
proof -
  have "intersection xs ys \<noteq> [] \<longleftrightarrow> set (intersection xs ys) \<noteq> {}" by simp
  then show ?thesis by (auto simp: set_intersection)
qed

lemma hasChangedLibraries_iff:
  "hasChangedLibraries e klass changedLibraries \<longleftrightarrow>
     (\<exists>lib \<in> set changedLibraries. contractName lib \<in> set (getSolidityLibNames e (bytecode klass)))"
  by (simp add: hasChangedLibraries_def intersection_nonempty)

lemma hasContractChanged_local:
  assumes "(contractAlias, name) \<in> set (pf_contracts (packageFile nf))"
  shows "hasContractChanged e nf contractAlias (Some klass) \<longleftrightarrow>
           \<not> hasContract nf contractAlias \<or>
           map_option c_localBytecodeHash (contract nf contractAlias) \<noteq>
             Some (Some (bytecodeDigest e (bytecode klass)))"
proof -
  from assms have "map_of (pf_contracts (packageFile nf)) contractAlias \<noteq> None"
    by (metis map_of_eq_None_iff image_eqI fst_conv)
  then have local: "isLocalContract nf contractAlias"
    by (simp add: isLocalContract_def pf_hasContract_def pf_contract_def)
  show ?thesis
  proof (cases "hasContract nf contractAlias")
    case False
    with local show ?thesis by (simp add: hasContractChanged_def isContractDeployed_def)
  next
    case True
    then obtain c where c: "contract nf contractAlias = Some c"
      by (auto simp: hasContract_def isEmpty_contract_def split: option.splits)
    with True local show ?thesis
      by (auto simp: hasContractChanged_def isContractDeployed_def hasSameBytecode_def)
  qed
qed

text \<open>
  C1, as the spec states it, fails when \<open>push\<close> is asked to reupload: the filter lets
  every manifest contract through, also one that is deployed with the same hash, while
  no new version is required and its bytecode refers to no library.
\<close>

theorem push_delta_counterexample:
  "push_deltas example_env (example_networkFile example_deployed_data) True =
     Inr ([], [(''Token'', \<lparr> contractName = ''Token'', bytecode = ''0xToken'' \<rparr>)])
   \<and> \<not> newVersionRequired (example_networkFile example_deployed_data)
   \<and> hasContract (example_networkFile example_deployed_data) ''Token''
   \<and> map_option c_localBytecodeHash (contract (example_networkFile example_deployed_data) ''Token'') =
       Some (Some (bytecodeDigest example_env ''0xToken''))
   \<and> getSolidityLibNames example_env ''0xToken'' = []"
  by (simp add: push_deltas_def solidityLibsForPush_def contractsListForPush_def
      getAllSolidityLibNames_def intersection_def uniq_def pf_contractNames_def
      pf_contractAliases_def newVersionRequired_def isPublished_def appAddress_def
      hasContract_def isEmpty_contract_def contract_def
      example_env_def example_networkFile_def example_deployed_data_def empty_data_def
      example_packageFile_def example_contract_def)

text \<open>
  C1, amended: when the library delta is computed without a naming clash, a contract
  appears in the contract delta of \<open>push\<close> exactly when it is a contract of the manifest
  and a reupload is requested, or a new package version is required, or the contract is
  not recorded as deployed, or the digest of its bytecode differs from the recorded
  \<open>localBytecodeHash\<close>, or its bytecode refers to a library of the library delta.
\<close>

theorem push_delta_iff:
  "push_deltas e nf reupload = Inr (changedLibraries, contractsDelta) \<longrightarrow>
     ((contractAlias, klass) \<in> set contractsDelta \<longleftrightarrow>
        (\<exists>name. (contractAlias, name) \<in> set (pf_contracts (packageFile nf)) \<and>
                klass = getFromLocal e name) \<and>
        (reupload \<or> newVersionRequired nf \<or> \<not> hasContract nf contractAlias \<or>
         map_option c_localBytecodeHash (contract nf contractAlias) \<noteq>
           Some (Some (bytecodeDigest e (bytecode klass))) \<or>
         (\<exists>lib \<in> set changedLibraries.
            contractName lib \<in> set (getSolidityLibNames e (bytecode klass)))))"
proof
  assume "push_deltas e nf reupload = Inr (changedLibraries, contractsDelta)"
  then have delta: "contractsDelta = contractsListForPush e nf (\<not> reupload) changedLibraries"
    by (auto simp: push_deltas_def split: sum.splits)
  show "(contractAlias, klass) \<in> set contractsDelta \<longleftrightarrow>
        (\<exists>name. (contractAlias, name) \<in> set (pf_contracts (packageFile nf)) \<and>
                klass = getFromLocal e name) \<and>
        (reupload \<or> newVersionRequired nf \<or> \<not> hasContract nf contractAlias \<or>
         map_option c_localBytecodeHash (contract nf contractAlias) \<noteq>
           Some (Some (bytecodeDigest e (bytecode klass))) \<or>
         (\<exists>lib \<in> set changedLibraries.
            contractName lib \<in> set (getSolidityLibNames e (bytecode klass))))"
    (is "?L \<longleftrightarrow> ?M \<and> ?R")
  proof (cases ?M)
    case False
    then have "(contractAlias, klass) \<notin> set contractsDelta"
      by (auto simp: delta contractsListForPush_def)
    with False show ?thesis by blast
  next
    case True
    then obtain name where name: "(contractAlias, name) \<in> set (pf_contracts (packageFile nf))"
      "klass = getFromLocal e name" by blast
    have mem: "(contractAlias, klass) \<in>
        set (map (\<lambda>(contractAlias, name). (contractAlias, getFromLocal e name))
                 (pf_contracts (packageFile nf)))"
      using name by force
    have "?L \<longleftrightarrow> (newVersionRequired nf \<or> reupload \<or>
                     hasContractChanged e nf contractAlias (Some klass) \<or>
                     hasChangedLibraries e klass changedLibraries)"
      using mem by (simp add: delta contractsListForPush_def)
    with True show ?thesis
      by (auto simp: hasContractChanged_local [OF name(1)] hasChangedLibraries_iff)
  qed
qed

theorem push_delta_iff_witness:
  "push_deltas example_env (example_networkFile example_deployed_data) False = Inr ([], [])
   \<and> (''Token'', getFromLocal example_env ''Token'') \<notin> set []
   \<and> push_deltas example_env (example_networkFile empty_data) False =
       Inr ([], [(''Token'', getFromLocal example_env ''Token'')])
   \<and> \<not> hasContract (example_networkFile empty_data) ''Token''"
proof -
  have a: "push_deltas example_env (example_networkFile example_deployed_data) False = Inr ([], [])"
    by (simp add: push_deltas_def solidityLibsForPush_def contractsListForPush_def
      getAllSolidityLibNames_def intersection_def uniq_def pf_contractNames_def
      pf_contractAliases_def newVersionRequired_def isPublished_def appAddress_def
      hasContractChanged_def isLocalContract_def isContractDeployed_def pf_hasContract_def
      pf_contract_def hasSameBytecode_def hasChangedLibraries_def
      hasContract_def isEmpty_contract_def contract_def
      example_env_def example_networkFile_def example_deployed_data_def empty_data_def
      example_packageFile_def example_contract_def)
  have b: "push_deltas example_env (example_networkFile empty_data) False =
       Inr ([], [(''Token'', getFromLocal example_env ''Token'')])"
    by (simp add: push_deltas_def solidityLibsForPush_def contractsListForPush_def
      getAllSolidityLibNames_def intersection_def uniq_def pf_contractNames_def
      pf_contractAliases_def newVersionRequired_def isPublished_def appAddress_def
      hasContractChanged_def isLocalContract_def isContractDeployed_def pf_hasContract_def
      pf_contract_def hasSameBytecode_def hasChangedLibraries_def
      hasContract_def isEmpty_contract_def contract_def
      example_env_def example_networkFile_def empty_data_def example_packageFile_def)
  have c: "\<not> hasContract (example_networkFile empty_data) ''Token''"
    by (simp add: hasContract_def isEmpty_contract_def contract_def example_networkFile_def
        empty_data_def)
  from a b c
    push_delta_iff [of example_env "example_networkFile example_deployed_data" False "[]" "[]"
      "''Token''" "getFromLocal example_env ''Token''"]
    push_delta_iff [of example_env "example_networkFile empty_data" False "[]"
      "[(''Token'', getFromLocal example_env ''Token'')]"
      "''Token''" "getFromLocal example_env ''Token''"]
  show ?thesis by simp
qed

section \<open>Frames\<close>

lemma entry_rel_refl: "entry_rel A p p"
  by (simp add: entry_rel_def)

lemma entry_rel_trans: "entry_rel A p q \<Longrightarrow> entry_rel A q r \<Longrightarrow> entry_rel A p r"
  by (auto simp: entry_rel_def)

lemma entries_rel_trans:
  "list_all2 (entry_rel A) ps qs \<Longrightarrow> list_all2 (entry_rel A) qs rs \<Longrightarrow> list_all2 (entry_rel A) ps rs"
  by (rule list_all2_trans [OF entry_rel_trans])

lemma proxies_rel_refl: "proxies_rel A al al"
  by (simp add: proxies_rel_def list_all2_refl entry_rel_refl)

lemma proxies_rel_trans:
  assumes "proxies_rel A al al'" "proxies_rel A al' al''"
  shows "proxies_rel A al al''"
proof -
  from assms have a: "list_all2 (list_all2 (entry_rel A)) (map snd al) (map snd al')"
    and b: "list_all2 (list_all2 (entry_rel A)) (map snd al') (map snd al'')"
    and k: "map fst al'' = map fst al"
    by (simp_all add: proxies_rel_def)
  have "list_all2 (list_all2 (entry_rel A)) (map snd al) (map snd al'')"
    by (rule list_all2_trans [OF _ a b]) (rule entries_rel_trans)
  with k show ?thesis by (simp add: proxies_rel_def)
qed

lemma list_all2_same: "list_all2 (\<lambda>p q. q = p) xs ys \<Longrightarrow> ys = xs"
  by (induction xs ys rule: list_all2_induct) simp_all

lemma entries_rel_empty: "list_all2 (entry_rel {}) ps qs \<Longrightarrow> qs = ps"
  by (induction ps qs rule: list_all2_induct) (simp_all add: entry_rel_def)

lemma proxies_rel_empty:
  assumes "proxies_rel {} al al'"
  shows "al' = al"
proof -
  from assms have "list_all2 (list_all2 (entry_rel {})) (map snd al) (map snd al')"
    by (simp add: proxies_rel_def)
  then have "list_all2 (\<lambda>ps qs. qs = ps) (map snd al) (map snd al')"
    by (rule list_all2_mono) (rule entries_rel_empty)
  then have "map snd al' = map snd al"
    by (rule list_all2_same)
  moreover from assms have "map fst al' = map fst al" by (simp add: proxies_rel_def)
  ultimately show ?thesis by (metis zip_map_fst_snd)
qed

lemma frame_iff:
  "frame T A nc nc' \<longleftrightarrow>
     (\<exists>cs. calls nc' = calls nc @ cs \<and> list_all (quiet T) cs) \<and>
     proxies_rel A (recorded nc) (recorded nc')"
proof -
  have "take (length (calls nc)) (calls nc') = calls nc \<and> list_all (quiet T) (new_calls nc nc') \<longleftrightarrow>
        (\<exists>cs. calls nc' = calls nc @ cs \<and> list_all (quiet T) cs)"
  proof
    assume h: "take (length (calls nc)) (calls nc') = calls nc \<and> list_all (quiet T) (new_calls nc nc')"
    have "calls nc' = take (length (calls nc)) (calls nc') @ drop (length (calls nc)) (calls nc')"
      by simp
    with h have "calls nc' = calls nc @ new_calls nc nc'" by (simp add: new_calls_def)
    with h show "\<exists>cs. calls nc' = calls nc @ cs \<and> list_all (quiet T) cs" by blast
  next
    assume "\<exists>cs. calls nc' = calls nc @ cs \<and> list_all (quiet T) cs"
    then show "take (length (calls nc)) (calls nc') = calls nc \<and> list_all (quiet T) (new_calls nc nc')"
      by (auto simp: new_calls_def)
  qed
  then show ?thesis unfolding frame_def by blast
qed

lemma frame_refl: "frame T A nc nc"
  by (simp add: frame_iff proxies_rel_refl)

lemma frame_trans:
  assumes "frame T A nc nc'" "frame T A nc' nc''"
  shows "frame T A nc nc''"
proof -
  from assms obtain cs cs' where "calls nc' = calls nc @ cs" "list_all (quiet T) cs"
    "calls nc'' = calls nc' @ cs'" "list_all (quiet T) cs'"
    by (auto simp: frame_iff)
  then have "calls nc'' = calls nc @ (cs @ cs') \<and> list_all (quiet T) (cs @ cs')" by simp
  then have "\<exists>ds. calls nc'' = calls nc @ ds \<and> list_all (quiet T) ds" by blast
  moreover from assms have "proxies_rel A (recorded nc) (recorded nc'')"
    by (auto simp: frame_iff intro: proxies_rel_trans)
  ultimately show ?thesis by (simp add: frame_iff)
qed

lemma frame_same:
  "calls nc' = calls nc \<Longrightarrow> recorded nc' = recorded nc \<Longrightarrow> frame T A nc nc'"
  by (simp add: frame_iff proxies_rel_refl)

lemma frame_resolve: "frame T A nc (snd (resolve x nc))"
  by (simp add: resolve_def frame_refl)

lemma frame_reject: "frame T A nc (snd (reject err nc))"
  by (simp add: reject_def frame_refl)

lemma frame_andThen:
  assumes "frame T A nc (snd (m nc))" "\<And>x nc'. frame T A nc' (snd (f x nc'))"
  shows "frame T A nc (snd (andThen m f nc))"
proof (cases "m nc")
  case (Pair r nc')
  show ?thesis
  proof (cases r)
    case (Inl err)
    with Pair assms(1) show ?thesis by (simp add: andThen_def)
  next
    case (Inr x)
    from Pair assms(1) have "frame T A nc nc'" by simp
    moreover have "frame T A nc' (snd (f x nc'))" by (rule assms(2))
    ultimately have "frame T A nc (snd (f x nc'))" by (rule frame_trans)
    with Pair Inr show ?thesis by (simp add: andThen_def)
  qed
qed

lemma frame_tryFinally:
  assumes "frame T A nc (snd (m nc))" "\<And>nc'. frame T A nc' (snd (fin nc'))"
  shows "frame T A nc (snd (tryFinally m fin nc))"
proof (cases "m nc")
  case (Pair r nc')
  from Pair assms(1) have "frame T A nc nc'" by simp
  moreover have "frame T A nc' (snd (fin nc'))" by (rule assms(2))
  ultimately have "frame T A nc (snd (fin nc'))" by (rule frame_trans)
  with Pair show ?thesis
    by (auto simp: tryFinally_def split: prod.splits sum.splits)
qed

lemma frame_rethrow:
  assumes "frame T A nc (snd (m nc))"
  shows "frame T A nc (snd (rethrow f m nc))"
  using assms by (auto simp: rethrow_def split: prod.splits sum.splits error.splits)

lemma frame_floating:
  assumes "frame T A nc (snd (m nc))"
  shows "frame T A nc (snd (floating m nc))"
  using assms by (auto simp: floating_def split: prod.splits)

lemma frame_perform:
  assumes "quiet T c"
  shows "frame T A nc (snd (perform b c nc))"
proof -
  have "calls (snd (perform b c nc)) = calls nc @ [c] \<and> list_all (quiet T) [c]"
    using assms by (simp add: perform_def)
  then have "\<exists>cs. calls (snd (perform b c nc)) = calls nc @ cs \<and> list_all (quiet T) cs" by blast
  moreover have "recorded (snd (perform b c nc)) = recorded nc"
    by (simp add: perform_def recorded_def)
  ultimately show ?thesis by (simp add: frame_iff proxies_rel_refl)
qed

lemma frame_performProject:
  assumes "quiet T c"
  shows "frame T A nc (snd (performProject b c nc))"
  using assms by (simp add: performProject_def frame_perform frame_refl)

lemma frame_allSettled:
  assumes "\<And>t nc'. t \<in> set ts \<Longrightarrow> frame T A nc' (snd (t nc'))"
  shows "frame T A nc (snd (allSettled ts nc))"
  using assms
proof (induction ts arbitrary: nc)
  case Nil
  show ?case by (simp add: frame_refl)
next
  case (Cons t ts)
  obtain r nc' where t: "t nc = (r, nc')" by (cases "t nc")
  obtain rs nc'' where ts: "allSettled ts nc' = (rs, nc'')" by (cases "allSettled ts nc'")
  have "frame T A nc (snd (t nc))" by (rule Cons.prems) simp
  with t have "frame T A nc nc'" by simp
  moreover have "frame T A nc' (snd (allSettled ts nc'))"
    by (rule Cons.IH) (rule Cons.prems, simp)
  ultimately have "frame T A nc nc''" using ts by (auto intro: frame_trans)
  with t ts show ?case by simp
qed

lemma frame_allPromisesOrError:
  assumes "\<And>t nc'. t \<in> set ts \<Longrightarrow> frame T A nc' (snd (t nc'))"
  shows "frame T A nc (snd (allPromisesOrError ts nc))"
proof -
  have "frame T A nc (snd (allSettled ts nc))" using assms by (rule frame_allSettled)
  then show ?thesis by (auto simp: allPromisesOrError_def split: prod.splits)
qed

lemmas frame_rules =
  frame_andThen frame_tryFinally frame_rethrow frame_floating frame_perform frame_performProject
  frame_allPromisesOrError frame_resolve frame_reject frame_refl

lemma recorded_simps:
  "recorded (nc\<lparr> project := x \<rparr>) = recorded nc"
  "recorded (nc\<lparr> calls := y \<rparr>) = recorded nc"
  "recorded (set_proxyAdmin w nc) = recorded nc"
  "recorded (set_proxyFactory w nc) = recorded nc"
  "recorded (updateZosVersionsIfNeeded e v nc) = recorded nc"
  by (simp_all add: recorded_def set_proxyAdmin_def set_proxyFactory_def
      updateZosVersionsIfNeeded_def Let_def)

lemma calls_simps:
  "calls (set_proxyAdmin w nc) = calls nc"
  "calls (set_proxyFactory w nc) = calls nc"
  "calls (updateZosVersionsIfNeeded e v nc) = calls nc"
  by (simp_all add: set_proxyAdmin_def set_proxyFactory_def updateZosVersionsIfNeeded_def Let_def)

lemma frame_fetchOrDeploy: "frame T A nc (snd (fetchOrDeploy b v nc))"
  unfolding fetchOrDeploy_def
  by (intro frame_rules) (simp_all add: quiet_def frame_same recorded_simps)

lemma frame_tryRegisterProxyAdmin: "frame T A nc (snd (tryRegisterProxyAdmin b a nc))"
  unfolding tryRegisterProxyAdmin_def
  by (auto intro!: frame_rules simp: quiet_def frame_same recorded_simps calls_simps)

lemma frame_tryRegisterProxyFactory: "frame T A nc (snd (tryRegisterProxyFactory b a nc))"
  unfolding tryRegisterProxyFactory_def
  by (auto intro!: frame_rules simp: quiet_def frame_same recorded_simps calls_simps)

lemma frame_migrate:
  assumes "p_address ` set (fetchOwnedProxies e (networkFile nc) None None None
             (if isPublished (networkFile nc) then appAddress (networkFile nc) else txParams_from nc))
           \<subseteq> T"
  shows "frame T A nc (snd (migrate e b nc))"
proof -
  define proxies where "proxies = fetchOwnedProxies e (networkFile nc) None None None
             (if isPublished (networkFile nc) then appAddress (networkFile nc) else txParams_from nc)"
  have task: "frame T A nc' (snd (andThen (perform b (Proxy_admin (p_address proxy)))
                 (\<lambda>currentAdmin nc2.
                    if currentAdmin \<noteq> adm then
                      (if truthy (appAddress (networkFile nc2))
                       then perform b (AppProxyMigrator (appAddress (networkFile nc2))
                                         (p_address proxy) adm) nc2
                       else perform b (SimpleProject_changeProxyAdmin (p_address proxy) adm) nc2)
                    else (Inr None, nc2)) nc'))"
    if "proxy \<in> set proxies" for proxy adm nc'
  proof -
    from that assms have "p_address proxy \<in> T" by (auto simp: proxies_def)
    then show ?thesis
      by (auto intro!: frame_rules simp: quiet_def)
  qed
  show ?thesis
    unfolding migrate_def Let_def proxies_def [symmetric]
    by (auto intro!: frame_rules frame_tryRegisterProxyAdmin task simp: quiet_def)
qed

lemma frame_migrateZosversionIfNeeded:
  assumes "isMigratableZosversion e (data_zosversion (data (networkFile nc))) \<longrightarrow>
           p_address ` set (fetchOwnedProxies e (networkFile nc) None None None
             (if isPublished (networkFile nc) then appAddress (networkFile nc) else txParams_from nc))
           \<subseteq> T"
  shows "frame T A nc (snd (migrateZosversionIfNeeded e b nc))"
  unfolding migrateZosversionIfNeeded_def
  using assms
  by (auto intro!: frame_rules frame_migrate simp: frame_same recorded_simps calls_simps)

lemma entries_rel_list_update:
  assumes "i < length ps" "p_address (ps ! i) \<in> A" "p_address q = p_address (ps ! i)"
  shows "list_all2 (entry_rel A) ps (ps[i := q])"
  using assms
  by (simp add: list_all2_conv_all_nth nth_list_update entry_rel_def)

lemma proxies_rel_update:
  assumes "map_of al k = Some ps" "list_all2 (entry_rel A) ps ps'"
  shows "proxies_rel A al (AList.update k ps' al)"
  using assms
proof (induction al)
  case Nil
  then show ?case by simp
next
  case (Cons kv al)
  obtain k0 v0 where kv: "kv = (k0, v0)" by (cases kv)
  show ?case
  proof (cases "k0 = k")
    case True
    with Cons.prems kv have "v0 = ps" by simp
    with True kv Cons.prems(2) show ?thesis
      by (simp add: proxies_rel_def list_all2_refl entry_rel_refl)
  next
    case False
    with Cons.prems kv have "map_of al k = Some ps" by simp
    then have "proxies_rel A al (AList.update k ps' al)"
      using Cons.prems(2) by (rule Cons.IH)
    with False kv show ?thesis
      by (simp add: proxies_rel_def list_all2_refl entry_rel_refl)
  qed
qed

lemma matchesAddress_eq: "matchesAddress a p \<Longrightarrow> p_address p = a"
  by (simp add: matchesAddress_def split: option.splits)

lemma frame_updateProxyA:
  assumes "p_address proxy \<in> A" "\<And>p q. fn p = Inr q \<Longrightarrow> p_address q = p_address p"
  shows "frame T A nc (snd (updateProxyA e proxy fn nc))"
proof (cases "updateProxy e proxy fn (networkFile nc)")
  case (Inl err)
  then show ?thesis by (simp add: updateProxyA_def frame_refl)
next
  case (Inr nf')
  define nf where "nf = networkFile nc"
  define fullname where "fullname = toContractFullName e (p_package proxy) (p_contract proxy)"
  define ps where "ps = proxiesOf nf fullname"
  from Inr obtain i q where i: "indexOfProxy nf fullname (p_address proxy) = Some i"
    and q: "fn (ps ! i) = Inr q"
    and nf': "nf' = setProxies fullname (ps[i := q]) nf"
    by (auto simp: updateProxy_def Let_def nf_def fullname_def ps_def split: option.splits sum.splits)
  from i have len: "i < length ps" and m: "matchesAddress (p_address proxy) (ps ! i)"
    by (simp_all add: indexOfProxy_Some ps_def)
  from i have look: "map_of (data_proxies (data nf)) fullname = Some ps"
    by (auto simp: indexOfProxy_def proxiesOf_def ps_def split: option.splits)
  have "p_address (ps ! i) \<in> A"
    using matchesAddress_eq [OF m] assms(1) by simp
  moreover have "p_address q = p_address (ps ! i)" using q by (rule assms(2))
  ultimately have "list_all2 (entry_rel A) ps (ps[i := q])"
    using len by (intro entries_rel_list_update)
  with look have "proxies_rel A (data_proxies (data nf))
                    (AList.update fullname (ps[i := q]) (data_proxies (data nf)))"
    by (rule proxies_rel_update)
  then have "proxies_rel A (recorded nc) (recorded (nc\<lparr> networkFile := nf' \<rparr>))"
    by (simp add: recorded_def nf' setProxies_def nf_def)
  then have "frame T A nc (nc\<lparr> networkFile := nf' \<rparr>)"
    by (simp add: frame_iff)
  with Inr show ?thesis by (simp add: updateProxyA_def)
qed

lemma frame_changeProxiesAdmin:
  assumes "p_address ` set proxies \<subseteq> T" "p_address ` set proxies \<subseteq> A"
  shows "frame T A nc (snd (changeProxiesAdmin e b proxies newAdmin nc))"
proof -
  have task: "frame T A nc' (snd (andThen (performProject b (Project_changeProxyAdmin (p_address aProxy) newAdmin))
                  (\<lambda>_. updateProxyA e aProxy
                          (\<lambda>anotherProxy. Inr (anotherProxy\<lparr> p_admin := Some newAdmin \<rparr>))) nc'))"
    if "aProxy \<in> set proxies" for aProxy nc'
  proof -
    from that assms have "p_address aProxy \<in> T" "p_address aProxy \<in> A" by auto
    then show ?thesis
      by (auto intro!: frame_rules frame_updateProxyA simp: quiet_def)
  qed
  show ?thesis
    unfolding changeProxiesAdmin_def
    by (auto intro!: frame_rules task)
qed

lemma frame_upgradeProxy:
  assumes "p_address proxy \<in> T" "p_address proxy \<in> A"
  shows "frame T A nc (snd (upgradeProxy e b proxy initMethod initArgs nc))"
  unfolding upgradeProxy_def
  using assms
  by (auto intro!: frame_rules frame_updateProxyA
      simp: quiet_def setSolidityLibs_def split: sum.splits)

lemma frame_andThen_at:
  assumes "frame T A nc (snd (m nc))"
    "\<And>x. fst (m nc) = Inr x \<Longrightarrow> frame T A (snd (m nc)) (snd (f x (snd (m nc))))"
  shows "frame T A nc (snd (andThen m f nc))"
proof (cases "m nc")
  case (Pair r nc')
  show ?thesis
  proof (cases r)
    case (Inl err)
    with Pair assms(1) show ?thesis by (simp add: andThen_def)
  next
    case (Inr x)
    from Pair assms(1) have "frame T A nc nc'" by simp
    moreover from Pair Inr assms(2) [of x] have "frame T A nc' (snd (f x nc'))" by simp
    ultimately have "frame T A nc (snd (f x nc'))" by (rule frame_trans)
    with Pair Inr show ?thesis by (simp add: andThen_def)
  qed
qed

lemma frame_getProxyDeploymentAddress:
  "frame UNIV A nc (snd (getProxyDeploymentAddress e b salt sender nc))"
  unfolding getProxyDeploymentAddress_def
  by (auto intro!: frame_rules frame_migrateZosversionIfNeeded frame_fetchOrDeploy
      frame_tryRegisterProxyFactory simp: quiet_def)

lemma frame_checkDeploymentAddress:
  "frame UNIV A nc (snd (checkDeploymentAddress e b salt nc))"
  unfolding checkDeploymentAddress_def
  by (auto intro!: frame_rules frame_getProxyDeploymentAddress simp: quiet_def)

lemma andThen_reject: "andThen (reject err) f = reject err"
  by (rule ext) (simp add: andThen_def reject_def)

lemma isl_reject: "isl (fst (reject err nc))"
  by (simp add: reject_def)

lemma isl_andThen:
  assumes "\<And>x nc'. isl (fst (f x nc'))"
  shows "isl (fst (andThen m f nc))"
proof (cases "m nc")
  case (Pair r nc')
  then show ?thesis using assms by (cases r) (simp_all add: andThen_def)
qed

lemma isl_tryFinally:
  assumes "isl (fst (m nc))"
  shows "isl (fst (tryFinally m fin nc))"
  using assms by (auto simp: tryFinally_def split: prod.splits sum.splits)

lemma frame_new_calls:
  assumes "frame T A nc nc'"
  shows "list_all (quiet T) (new_calls nc nc')"
  using assms by (auto simp: frame_iff new_calls_def)

lemma frame_recorded_same:
  assumes "frame T {} nc nc'"
  shows "recorded nc' = recorded nc"
  using assms by (auto simp: frame_iff dest: proxies_rel_empty)

section \<open>Creating a minimal proxy with a salt\<close>

lemma createProxy_minimal_salt:
  assumes "truthy salt"
  shows "createProxy e b packageName contractAlias initMethod initArgs admin salt signature (Some Minimal) =
     tryFinally
       (andThen (migrateZosversionIfNeeded e b)
          (\<lambda>_. andThen (\<lambda>nc. fetchOrDeploy b (currentVersion nc) nc)
            (\<lambda>_ nc0.
               andThen (\<lambda>nc. (getContractClass e
                          (if \<not> truthy packageName
                           then Some (pf_name (packageFile (networkFile nc0))) else packageName)
                          contractAlias, nc))
                 (\<lambda>klass. andThen (setSolidityLibs klass)
                   (\<lambda>_. andThen (checkInitialization klass initMethod)
                     (\<lambda>_. andThen (checkDeploymentAddress e b salt)
                       (\<lambda>_. reject (Error ''Cannot create a minimal proxy with a precomputed address, use an Upgradeable proxy instead.''))))) nc0)))
       (andThen (tryRegisterProxyAdmin b None) (\<lambda>_. tryRegisterProxyFactory b None))"
  using assms by (simp add: createProxy_def createProxyInstance_def andThen_reject Let_def)

text \<open>
  C7: for kind \<open>Minimal\<close> and a non-empty salt, \<open>createProxyInstance\<close> throws its error
  without any call to the backend, and \<open>createProxy\<close> ends with an exception, has made no
  call that creates a proxy, and leaves the recorded proxies as they were.
\<close>

theorem minimal_proxy_with_salt_fails:
  "truthy salt \<longrightarrow>
     createProxyInstance b (Some Minimal) salt klass signature createArgs nc =
       (Inl (Error ''Cannot create a minimal proxy with a precomputed address, use an Upgradeable proxy instead.''), nc)
     \<and> isl (fst (createProxy e b packageName contractAlias initMethod initArgs admin salt signature
                   (Some Minimal) nc))
     \<and> list_all (\<lambda>c. \<not> is_creation c)
          (new_calls nc (snd (createProxy e b packageName contractAlias initMethod initArgs admin salt
                                 signature (Some Minimal) nc)))
     \<and> recorded (snd (createProxy e b packageName contractAlias initMethod initArgs admin salt
                         signature (Some Minimal) nc)) = recorded nc"
proof
  assume salt: "truthy salt"
  let ?run = "createProxy e b packageName contractAlias initMethod initArgs admin salt signature
                (Some Minimal) nc"
  have a: "createProxyInstance b (Some Minimal) salt klass signature createArgs nc =
       (Inl (Error ''Cannot create a minimal proxy with a precomputed address, use an Upgradeable proxy instead.''), nc)"
    using salt by (simp add: createProxyInstance_def reject_def)
  have b: "isl (fst ?run)"
    unfolding createProxy_minimal_salt [OF salt]
    by (intro isl_tryFinally isl_andThen isl_reject)
  have fr: "frame UNIV {} nc (snd ?run)"
    unfolding createProxy_minimal_salt [OF salt]
    by (auto intro!: frame_rules frame_migrateZosversionIfNeeded frame_fetchOrDeploy
        frame_checkDeploymentAddress frame_tryRegisterProxyAdmin frame_tryRegisterProxyFactory
        simp: setSolidityLibs_def checkInitialization_def)
  from frame_new_calls [OF fr] have c: "list_all (\<lambda>c. \<not> is_creation c) (new_calls nc (snd ?run))"
    by (simp add: list_all_iff quiet_def)
  from fr have d: "recorded (snd ?run) = recorded nc" by (rule frame_recorded_same)
  from a b c d show "createProxyInstance b (Some Minimal) salt klass signature createArgs nc =
       (Inl (Error ''Cannot create a minimal proxy with a precomputed address, use an Upgradeable proxy instead.''), nc)
     \<and> isl (fst ?run) \<and> list_all (\<lambda>c. \<not> is_creation c) (new_calls nc (snd ?run))
     \<and> recorded (snd ?run) = recorded nc"
    by blast
qed

section \<open>The ownership filter and the batch operations\<close>

lemma spreadProxy_kind:
  "p_kind (spreadProxy e k entry) = Some Upgradeable \<longleftrightarrow> p_kind entry \<noteq> Some Minimal"
proof (cases "p_kind entry")
  case None
  then show ?thesis by (simp add: spreadProxy_def)
next
  case (Some x)
  then show ?thesis by (cases x) (simp_all add: spreadProxy_def)
qed

lemma spreadProxy_fields:
  "p_address (spreadProxy e k entry) = p_address entry"
  "p_admin (spreadProxy e k entry) = p_admin entry"
  by (simp_all add: spreadProxy_def)

lemma getProxies_origin:
  assumes "p \<in> set (getProxies e nf flt)"
  shows "\<exists>k ps entry. (k, ps) \<in> set (data_proxies (data nf)) \<and> entry \<in> set ps \<and>
           p = spreadProxy e k entry \<and> (p_kind flt = None \<or> p_kind p = p_kind flt)"
  using assms by (auto simp: getProxies_def Let_def)

lemma fetchOwnedProxies_origin:
  assumes "p \<in> set (fetchOwnedProxies e nf packageName contractAlias proxyAddress ownerAddress)"
  shows "\<exists>k ps entry. (k, ps) \<in> set (data_proxies (data nf)) \<and> entry \<in> set ps \<and>
           p_address p = p_address entry \<and> p_kind p = Some Upgradeable \<and>
           p_kind entry \<noteq> Some Minimal \<and>
           (\<not> truthy (p_admin entry) \<or>
            \<not> truthy (toChecksumAddress e (or_else ownerAddress (proxyAdminAddress nf))) \<or>
            toChecksumAddress e (p_admin entry) =
              toChecksumAddress e (or_else ownerAddress (proxyAdminAddress nf)))"
proof -
  let ?flt = "\<lparr> p_alias = None,
              p_package = or_else packageName
                            (if truthy contractAlias then Some (pf_name (packageFile nf)) else None),
              p_contract = contractAlias, p_address = proxyAddress, p_version = None,
              p_implementation = None, p_admin = None, p_kind = Some Upgradeable \<rparr>"
  from assms have mem: "p \<in> set (getProxies e nf ?flt)"
    and own: "\<not> truthy (p_admin p) \<or>
            \<not> truthy (toChecksumAddress e (or_else ownerAddress (proxyAdminAddress nf))) \<or>
            toChecksumAddress e (p_admin p) =
              toChecksumAddress e (or_else ownerAddress (proxyAdminAddress nf))"
    by (auto simp: fetchOwnedProxies_def Let_def split: if_splits)
  from getProxies_origin [OF mem] obtain k ps entry where
    o: "(k, ps) \<in> set (data_proxies (data nf))" "entry \<in> set ps" "p = spreadProxy e k entry"
      "p_kind p = Some Upgradeable"
    by auto
  from o(3,4) have "p_kind entry \<noteq> Some Minimal" by (simp add: spreadProxy_kind)
  with o own show ?thesis by (auto simp: spreadProxy_fields)
qed

lemma entry_in_concat:
  assumes "(k, ps) \<in> set al" "entry \<in> set ps"
  shows "entry \<in> set (concat (map snd al))"
  using assms by force

lemma nth_in_concat:
  assumes "j < length al" "i < length (snd (al ! j))"
  shows "snd (al ! j) ! i \<in> set (concat (map snd al))"
proof -
  from assms(1) have "al ! j \<in> set al" by simp
  then have "(fst (al ! j), snd (al ! j)) \<in> set al" by simp
  moreover from assms(2) have "snd (al ! j) ! i \<in> set (snd (al ! j))" by simp
  ultimately show ?thesis by (rule entry_in_concat)
qed

lemma frame_untouched:
  assumes "frame T A nc nc'" "j < length (recorded nc)" "i < length (snd (recorded nc ! j))"
    "p_address (snd (recorded nc ! j) ! i) \<notin> T" "p_address (snd (recorded nc ! j) ! i) \<notin> A"
  shows "untouched nc nc' j i"
proof -
  let ?entry = "snd (recorded nc ! j) ! i"
  from frame_new_calls [OF assms(1)] assms(4)
  have a: "list_all (\<lambda>c. call_target c \<noteq> Some (p_address ?entry)) (new_calls nc nc')"
    by (auto simp: list_all_iff quiet_def split: option.splits)
  from assms(1) have keys: "map fst (recorded nc') = map fst (recorded nc)"
    and rel: "list_all2 (list_all2 (entry_rel A)) (map snd (recorded nc)) (map snd (recorded nc'))"
    by (simp_all add: frame_iff proxies_rel_def)
  from keys have len: "length (recorded nc') = length (recorded nc)"
    by (metis length_map)
  with assms(2) have j': "j < length (recorded nc')" by simp
  from keys assms(2) j' have k: "fst (recorded nc' ! j) = fst (recorded nc ! j)"
    by (metis nth_map)
  from rel assms(2) j' have inner: "list_all2 (entry_rel A) (snd (recorded nc ! j)) (snd (recorded nc' ! j))"
    by (auto simp: list_all2_conv_all_nth)
  then have li: "length (snd (recorded nc' ! j)) = length (snd (recorded nc ! j))"
    by (simp add: list_all2_lengthD)
  from inner assms(3) have "entry_rel A ?entry (snd (recorded nc' ! j) ! i)"
    by (simp add: list_all2_conv_all_nth)
  with assms(5) have same: "snd (recorded nc' ! j) ! i = ?entry"
    by (simp add: entry_rel_def)
  from a j' k li assms(3) same show ?thesis by (simp add: untouched_def)
qed

text \<open>The two batch operations stay inside the proxies that the two fetches return.\<close>

lemma frame_setProxiesAdmin:
  assumes "isMigratableZosversion e (data_zosversion (data (networkFile nc))) \<longrightarrow>
           p_address ` set (fetchOwnedProxies e (networkFile nc) None None None
             (if isPublished (networkFile nc) then appAddress (networkFile nc) else txParams_from nc))
           \<subseteq> T"
    and "p_address ` set (fetchOwnedProxies e (networkFile (snd (migrateZosversionIfNeeded e b nc)))
                            packageName contractAlias proxyAddress None) \<subseteq> T"
  shows "frame T T nc (snd (setProxiesAdmin e b packageName contractAlias proxyAddress newAdmin nc))"
  unfolding setProxiesAdmin_def
proof (rule frame_andThen_at)
  show "frame T T nc (snd (migrateZosversionIfNeeded e b nc))"
    using assms(1) by (rule frame_migrateZosversionIfNeeded)
next
  fix x
  let ?nc1 = "snd (migrateZosversionIfNeeded e b nc)"
  show "frame T T ?nc1
          (snd (let proxies = fetchOwnedProxies e (networkFile ?nc1) packageName contractAlias proxyAddress None
                in if proxies = [] then (Inr [], ?nc1)
                   else andThen (fetchOrDeploy b (currentVersion ?nc1))
                          (\<lambda>_. andThen (changeProxiesAdmin e b proxies newAdmin)
                            (\<lambda>_. resolve proxies)) ?nc1))"
    using assms(2)
    by (auto intro!: frame_rules frame_fetchOrDeploy frame_changeProxiesAdmin simp: Let_def)
qed

lemma frame_upgradeProxies:
  assumes "isMigratableZosversion e (data_zosversion (data (networkFile nc))) \<longrightarrow>
           p_address ` set (fetchOwnedProxies e (networkFile nc) None None None
             (if isPublished (networkFile nc) then appAddress (networkFile nc) else txParams_from nc))
           \<subseteq> T"
    and "p_address ` set (fetchOwnedProxies e (networkFile (snd (migrateZosversionIfNeeded e b nc)))
                            packageName contractAlias proxyAddress None) \<subseteq> T"
  shows "frame T T nc (snd (upgradeProxies e b packageName contractAlias proxyAddress initMethod initArgs nc))"
  unfolding upgradeProxies_def
proof (rule frame_andThen_at)
  show "frame T T nc (snd (migrateZosversionIfNeeded e b nc))"
    using assms(1) by (rule frame_migrateZosversionIfNeeded)
next
  fix x
  let ?nc1 = "snd (migrateZosversionIfNeeded e b nc)"
  show "frame T T ?nc1
          (snd (let proxies = fetchOwnedProxies e (networkFile ?nc1) packageName contractAlias proxyAddress None
                in if proxies = [] then (Inr [], ?nc1)
                   else andThen (fetchOrDeploy b (currentVersion ?nc1))
                          (\<lambda>_. andThen (allPromisesOrError
                                     (map (\<lambda>proxy. upgradeProxy e b proxy initMethod initArgs) proxies))
                            (\<lambda>_. resolve proxies)) ?nc1))"
    using assms(2)
    by (auto intro!: frame_rules frame_fetchOrDeploy frame_upgradeProxy
        simp: Let_def image_subset_iff)
qed

lemma recorded_after_migration:
  "recorded (snd (migrateZosversionIfNeeded e b nc)) = recorded nc"
proof -
  have "frame UNIV {} nc (snd (migrateZosversionIfNeeded e b nc))"
    by (rule frame_migrateZosversionIfNeeded) simp
  then show ?thesis by (rule frame_recorded_same)
qed

lemma fetched_is_recorded:
  assumes rec: "data_proxies (data nf) = recorded nc"
    and p: "p \<in> set (fetchOwnedProxies e nf packageName contractAlias proxyAddress ownerAddress)"
  shows "\<exists>entry \<in> set (concat (map snd (recorded nc))).
           p_address p = p_address entry \<and> p_kind entry \<noteq> Some Minimal \<and>
           (\<not> truthy (p_admin entry) \<or>
            \<not> truthy (toChecksumAddress e (or_else ownerAddress (proxyAdminAddress nf))) \<or>
            toChecksumAddress e (p_admin entry) =
              toChecksumAddress e (or_else ownerAddress (proxyAdminAddress nf)))"
proof -
  from fetchOwnedProxies_origin [OF p] obtain k ps entry where
    o: "(k, ps) \<in> set (data_proxies (data nf))" "entry \<in> set ps" "p_address p = p_address entry"
       "p_kind entry \<noteq> Some Minimal"
       "\<not> truthy (p_admin entry) \<or>
        \<not> truthy (toChecksumAddress e (or_else ownerAddress (proxyAdminAddress nf))) \<or>
        toChecksumAddress e (p_admin entry) =
          toChecksumAddress e (or_else ownerAddress (proxyAdminAddress nf))"
    by blast
  from o(1) rec have "(k, ps) \<in> set (recorded nc)" by simp
  then have "entry \<in> set (concat (map snd (recorded nc)))"
    using o(2) by (rule entry_in_concat)
  with o(3,4,5) show ?thesis by blast
qed

lemma recorded_here: "data_proxies (data (networkFile nc)) = recorded nc"
  by (simp add: recorded_def)

lemma recorded_migrated:
  "data_proxies (data (networkFile (snd (migrateZosversionIfNeeded e b nc)))) = recorded nc"
  using recorded_after_migration [of e b nc] by (simp add: recorded_def)

lemma outside_untouched:
  assumes fr: "frame (p_address ` S) (p_address ` S) nc nc'"
    and sub: "S \<subseteq> set (concat (map snd (recorded nc)))"
    and d: "distinct (map p_address (concat (map snd (recorded nc))))"
    and j: "j < length (recorded nc)" and i: "i < length (snd (recorded nc ! j))"
    and out: "snd (recorded nc ! j) ! i \<notin> S"
  shows "untouched nc nc' j i"
proof -
  let ?entry = "snd (recorded nc ! j) ! i"
  have mem: "?entry \<in> set (concat (map snd (recorded nc)))" using j i by (rule nth_in_concat)
  from d have inj: "inj_on p_address (set (concat (map snd (recorded nc))))"
    by (simp add: distinct_map)
  have "p_address ?entry \<notin> p_address ` S"
  proof
    assume "p_address ?entry \<in> p_address ` S"
    then obtain x where x: "x \<in> S" "p_address x = p_address ?entry" by auto
    from x(1) sub have "x \<in> set (concat (map snd (recorded nc)))" by blast
    with inj mem x(2) have "x = ?entry" by (auto dest: inj_onD)
    with x(1) out show False by simp
  qed
  then show ?thesis using fr j i by (intro frame_untouched) simp_all
qed

section \<open>Only upgradeable proxies\<close>


section \<open>Only owned proxies\<close>

text \<open>
  C2, amended. Of the upgradeable proxies that match the request, \<open>_fetchOwnedProxies\<close>
  keeps exactly those that have no recorded admin, or whose checksummed admin equals
  the checksummed expected admin, and it keeps all of them when there is no expected
  admin at all (no explicit owner and no \<open>proxyAdmin\<close> address in the record),
  whatever admin they record; the others it drops.
  The expected admin of the batch, \<open>batchAdmin\<close> below, is the \<open>proxyAdmin\<close> address of
  the record as the schema migration leaves it; that of the schema migration, which
  runs first when the schema version asks for it, is the legacy owner (the app address
  of a published project, else the sender), else the \<open>proxyAdmin\<close> address
  (\<open>legacyAdmin\<close>). \<open>setProxiesAdmin\<close> and \<open>upgradeProxies\<close> name in their calls only
  addresses of recorded entries that one of the two filters accepts (\<open>accepted\<close>), and
  change only entries with such an address. Hence, when every recorded proxy has its own
  address, an entry whose recorded admin differs, after checksumming, from an existing
  expected admin is untouched by both: no call names its address and the entry stays as
  it is.
\<close>

theorem unowned_proxies_untouched:
  "list_all (\<lambda>p. \<not> truthy (p_admin p) \<or>
                 \<not> truthy (toChecksumAddress e (or_else ownerAddress (proxyAdminAddress (networkFile nc)))) \<or>
                 toChecksumAddress e (p_admin p) =
                   toChecksumAddress e (or_else ownerAddress (proxyAdminAddress (networkFile nc))))
     (fetchOwnedProxies e (networkFile nc) packageName contractAlias proxyAddress ownerAddress)
   \<and> list_all (\<lambda>p. (truthy (p_admin p) \<and>
                  truthy (toChecksumAddress e (or_else ownerAddress (proxyAdminAddress (networkFile nc)))) \<and>
                  toChecksumAddress e (p_admin p) \<noteq>
                    toChecksumAddress e (or_else ownerAddress (proxyAdminAddress (networkFile nc)))) \<or>
                 p \<in> set (fetchOwnedProxies e (networkFile nc) packageName contractAlias proxyAddress
                            ownerAddress))
       (getProxies e (networkFile nc)
          \<lparr> p_alias = None,
            p_package = or_else packageName
                          (if truthy contractAlias then Some (pf_name (packageFile (networkFile nc)))
                           else None),
            p_contract = contractAlias, p_address = proxyAddress, p_version = None,
            p_implementation = None, p_admin = None, p_kind = Some Upgradeable \<rparr>)
   \<and> (\<not> truthy (toChecksumAddress e (or_else ownerAddress (proxyAdminAddress (networkFile nc)))) \<longrightarrow>
        fetchOwnedProxies e (networkFile nc) packageName contractAlias proxyAddress ownerAddress =
        getProxies e (networkFile nc)
          \<lparr> p_alias = None,
            p_package = or_else packageName
                          (if truthy contractAlias then Some (pf_name (packageFile (networkFile nc)))
                           else None),
            p_contract = contractAlias, p_address = proxyAddress, p_version = None,
            p_implementation = None, p_admin = None, p_kind = Some Upgradeable \<rparr>)
   \<and> (let batchAdmin = toChecksumAddress e (or_else None
                          (proxyAdminAddress (networkFile (snd (migrateZosversionIfNeeded e b nc)))));
           legacyAdmin = toChecksumAddress e (or_else
                           (if isPublished (networkFile nc) then appAddress (networkFile nc)
                            else txParams_from nc)
                           (proxyAdminAddress (networkFile nc)));
           accepted = {entry \<in> set (concat (map snd (recorded nc))).
                         (\<not> truthy (p_admin entry) \<or> \<not> truthy batchAdmin \<or>
                          toChecksumAddress e (p_admin entry) = batchAdmin) \<or>
                         (isMigratableZosversion e (data_zosversion (data (networkFile nc))) \<and>
                          (\<not> truthy (p_admin entry) \<or> \<not> truthy legacyAdmin \<or>
                           toChecksumAddress e (p_admin entry) = legacyAdmin))}
       in frame (p_address ` accepted) (p_address ` accepted) nc
            (snd (setProxiesAdmin e b packageName contractAlias proxyAddress newAdmin nc)) \<and>
          frame (p_address ` accepted) (p_address ` accepted) nc
            (snd (upgradeProxies e b packageName contractAlias proxyAddress initMethod initArgs nc)) \<and>
          (distinct (map p_address (concat (map snd (recorded nc)))) \<and>
           j < length (recorded nc) \<and> i < length (snd (recorded nc ! j)) \<and>
           truthy (p_admin (snd (recorded nc ! j) ! i)) \<and>
           truthy batchAdmin \<and>
           toChecksumAddress e (p_admin (snd (recorded nc ! j) ! i)) \<noteq> batchAdmin \<and>
           (isMigratableZosversion e (data_zosversion (data (networkFile nc))) \<longrightarrow>
              truthy legacyAdmin \<and>
              toChecksumAddress e (p_admin (snd (recorded nc ! j) ! i)) \<noteq> legacyAdmin) \<longrightarrow>
           untouched nc (snd (setProxiesAdmin e b packageName contractAlias proxyAddress newAdmin nc)) j i \<and>
           untouched nc (snd (upgradeProxies e b packageName contractAlias proxyAddress
                                initMethod initArgs nc)) j i))"
proof -
  define batchAdmin where "batchAdmin = toChecksumAddress e (or_else None
                          (proxyAdminAddress (networkFile (snd (migrateZosversionIfNeeded e b nc)))))"
  define legacyAdmin where "legacyAdmin = toChecksumAddress e (or_else
                           (if isPublished (networkFile nc) then appAddress (networkFile nc)
                            else txParams_from nc)
                           (proxyAdminAddress (networkFile nc)))"
  define accepted where "accepted = {entry \<in> set (concat (map snd (recorded nc))).
                         (\<not> truthy (p_admin entry) \<or> \<not> truthy batchAdmin \<or>
                          toChecksumAddress e (p_admin entry) = batchAdmin) \<or>
                         (isMigratableZosversion e (data_zosversion (data (networkFile nc))) \<and>
                          (\<not> truthy (p_admin entry) \<or> \<not> truthy legacyAdmin \<or>
                           toChecksumAddress e (p_admin entry) = legacyAdmin))}"
  have a: "list_all (\<lambda>p. \<not> truthy (p_admin p) \<or>
                 \<not> truthy (toChecksumAddress e (or_else ownerAddress (proxyAdminAddress (networkFile nc)))) \<or>
                 toChecksumAddress e (p_admin p) =
                   toChecksumAddress e (or_else ownerAddress (proxyAdminAddress (networkFile nc))))
     (fetchOwnedProxies e (networkFile nc) packageName contractAlias proxyAddress ownerAddress)"
    by (auto simp: list_all_iff fetchOwnedProxies_def Let_def split: if_splits)
  have b: "list_all (\<lambda>p. (truthy (p_admin p) \<and>
                  truthy (toChecksumAddress e (or_else ownerAddress (proxyAdminAddress (networkFile nc)))) \<and>
                  toChecksumAddress e (p_admin p) \<noteq>
                    toChecksumAddress e (or_else ownerAddress (proxyAdminAddress (networkFile nc)))) \<or>
                 p \<in> set (fetchOwnedProxies e (networkFile nc) packageName contractAlias proxyAddress
                            ownerAddress))
       (getProxies e (networkFile nc)
          \<lparr> p_alias = None,
            p_package = or_else packageName
                          (if truthy contractAlias then Some (pf_name (packageFile (networkFile nc)))
                           else None),
            p_contract = contractAlias, p_address = proxyAddress, p_version = None,
            p_implementation = None, p_admin = None, p_kind = Some Upgradeable \<rparr>)"
    by (auto simp: list_all_iff fetchOwnedProxies_def Let_def)
  have c: "fetchOwnedProxies e (networkFile nc) packageName contractAlias proxyAddress ownerAddress =
        getProxies e (networkFile nc)
          \<lparr> p_alias = None,
            p_package = or_else packageName
                          (if truthy contractAlias then Some (pf_name (packageFile (networkFile nc)))
                           else None),
            p_contract = contractAlias, p_address = proxyAddress, p_version = None,
            p_implementation = None, p_admin = None, p_kind = Some Upgradeable \<rparr>"
    if "\<not> truthy (toChecksumAddress e (or_else ownerAddress (proxyAdminAddress (networkFile nc))))"
    using that by (simp add: fetchOwnedProxies_def Let_def)
  have m: "isMigratableZosversion e (data_zosversion (data (networkFile nc))) \<longrightarrow>
           p_address ` set (fetchOwnedProxies e (networkFile nc) None None None
             (if isPublished (networkFile nc) then appAddress (networkFile nc) else txParams_from nc))
           \<subseteq> p_address ` accepted"
  proof (intro impI subsetI)
    fix x
    assume mig: "isMigratableZosversion e (data_zosversion (data (networkFile nc)))"
      and "x \<in> p_address ` set (fetchOwnedProxies e (networkFile nc) None None None
             (if isPublished (networkFile nc) then appAddress (networkFile nc) else txParams_from nc))"
    then obtain p where p: "p \<in> set (fetchOwnedProxies e (networkFile nc) None None None
             (if isPublished (networkFile nc) then appAddress (networkFile nc) else txParams_from nc))"
      "x = p_address p" by auto
    from fetched_is_recorded [OF recorded_here p(1)] obtain entry where
      "entry \<in> set (concat (map snd (recorded nc)))" "p_address p = p_address entry"
      "\<not> truthy (p_admin entry) \<or> \<not> truthy legacyAdmin \<or>
       toChecksumAddress e (p_admin entry) = legacyAdmin"
      unfolding legacyAdmin_def by blast
    with mig have "entry \<in> accepted" "x = p_address entry"
      using p(2) by (simp_all add: accepted_def)
    then show "x \<in> p_address ` accepted" by blast
  qed
  have bb: "p_address ` set (fetchOwnedProxies e (networkFile (snd (migrateZosversionIfNeeded e b nc)))
                               packageName contractAlias proxyAddress None) \<subseteq> p_address ` accepted"
  proof
    fix x
    assume "x \<in> p_address ` set (fetchOwnedProxies e (networkFile (snd (migrateZosversionIfNeeded e b nc)))
                               packageName contractAlias proxyAddress None)"
    then obtain p where p: "p \<in> set (fetchOwnedProxies e (networkFile (snd (migrateZosversionIfNeeded e b nc)))
                               packageName contractAlias proxyAddress None)"
      "x = p_address p" by auto
    from fetched_is_recorded [OF recorded_migrated p(1)] obtain entry where
      "entry \<in> set (concat (map snd (recorded nc)))" "p_address p = p_address entry"
      "\<not> truthy (p_admin entry) \<or> \<not> truthy batchAdmin \<or>
       toChecksumAddress e (p_admin entry) = batchAdmin"
      unfolding batchAdmin_def by blast
    then have "entry \<in> accepted" "x = p_address entry"
      using p(2) by (simp_all add: accepted_def)
    then show "x \<in> p_address ` accepted" by blast
  qed
  have f1: "frame (p_address ` accepted) (p_address ` accepted) nc
              (snd (setProxiesAdmin e b packageName contractAlias proxyAddress newAdmin nc))"
    using m bb by (rule frame_setProxiesAdmin)
  have f2: "frame (p_address ` accepted) (p_address ` accepted) nc
              (snd (upgradeProxies e b packageName contractAlias proxyAddress initMethod initArgs nc))"
    using m bb by (rule frame_upgradeProxies)
  have u: "untouched nc (snd (setProxiesAdmin e b packageName contractAlias proxyAddress newAdmin nc)) j i \<and>
           untouched nc (snd (upgradeProxies e b packageName contractAlias proxyAddress
                                initMethod initArgs nc)) j i"
    if h: "distinct (map p_address (concat (map snd (recorded nc)))) \<and>
           j < length (recorded nc) \<and> i < length (snd (recorded nc ! j)) \<and>
           truthy (p_admin (snd (recorded nc ! j) ! i)) \<and>
           truthy batchAdmin \<and>
           toChecksumAddress e (p_admin (snd (recorded nc ! j) ! i)) \<noteq> batchAdmin \<and>
           (isMigratableZosversion e (data_zosversion (data (networkFile nc))) \<longrightarrow>
              truthy legacyAdmin \<and>
              toChecksumAddress e (p_admin (snd (recorded nc ! j) ! i)) \<noteq> legacyAdmin)"
  proof -
    from h have d: "distinct (map p_address (concat (map snd (recorded nc))))"
      and j: "j < length (recorded nc)" and i: "i < length (snd (recorded nc ! j))"
      and out: "snd (recorded nc ! j) ! i \<notin> accepted"
      by (auto simp: accepted_def)
    have s: "accepted \<subseteq> set (concat (map snd (recorded nc)))" by (auto simp: accepted_def)
    from outside_untouched [OF f1 s d j i out] outside_untouched [OF f2 s d j i out]
    show ?thesis by simp
  qed
  from a b c f1 f2 u show ?thesis
    unfolding Let_def batchAdmin_def [symmetric] legacyAdmin_def [symmetric] accepted_def [symmetric]
    by blast
qed

section \<open>The operations on concrete records\<close>

lemmas run_defs =
  setProxiesAdmin_def upgradeProxies_def migrateZosversionIfNeeded_def migrate_def
  updateZosVersionsIfNeeded_def fetchOwnedProxies_def getProxies_def spreadProxy_def
  changeProxiesAdmin_def upgradeProxy_def allPromisesOrError_def andThen_def resolve_def
  reject_def perform_def performProject_def fetchOrDeploy_def updateProxyA_def updateProxy_def
  indexOfProxy_def proxiesOf_def setProxies_def matchesAddress_def currentVersion_def
  isPublished_def appAddress_def proxyAdminAddress_def proxyFactoryAddress_def truthy_def
  or_else_def template_def rethrow_def tryFinally_def floating_def createProxy_def
  createProxyInstance_def checkDeploymentAddress_def getProxyDeploymentAddress_def
  tryRegisterProxyAdmin_def tryRegisterProxyFactory_def set_proxyAdmin_def set_proxyFactory_def
  updateTruffleDeployedInformation_def addProxy_def pf_contract_def recorded_def new_calls_def
  setSolidityLibs_def checkInitialization_def
  example_env_def example_backend_def example_controller_def example_networkFile_def
  example_packageFile_def empty_data_def example_proxies_data_def example_owned_data_def
  example_minimal_data_def example_legacy_data_def example_proxy_def
  example_toContractFullName_def
  example_fromContractFullName_def Let_def

theorem minimal_proxy_with_salt_fails_witness:
  "truthy (Some ''salt'')
   \<and> fst (createProxy example_env example_backend None (Some ''Token'') None [] None (Some ''salt'')
             None (Some Minimal) (example_controller empty_data)) =
       Inl (Error ''Cannot create a minimal proxy with a precomputed address, use an Upgradeable proxy instead.'')
   \<and> list_all (\<lambda>c. \<not> is_creation c)
        (new_calls (example_controller empty_data)
           (snd (createProxy example_env example_backend None (Some ''Token'') None [] None
                   (Some ''salt'') None (Some Minimal) (example_controller empty_data))))
   \<and> recorded (snd (createProxy example_env example_backend None (Some ''Token'') None [] None
                       (Some ''salt'') None (Some Minimal) (example_controller empty_data))) = []"
proof -
  have salt: "truthy (Some ''salt'')" by (simp add: truthy_def)
  have a: "fst (createProxy example_env example_backend None (Some ''Token'') None [] None (Some ''salt'')
             None (Some Minimal) (example_controller empty_data)) =
       Inl (Error ''Cannot create a minimal proxy with a precomputed address, use an Upgradeable proxy instead.'')"
    by (simp add: run_defs)
  have r: "recorded (example_controller empty_data) = []"
    by (simp add: run_defs)
  from salt a r
    minimal_proxy_with_salt_fails [where salt = "Some ''salt''" and b = example_backend
      and nc = "example_controller empty_data" and e = example_env and packageName = None
      and contractAlias = "Some ''Token''" and initMethod = None and initArgs = "[]"
      and admin = None and signature = None]
  show ?thesis by simp
qed


text \<open>
  C2, as the spec states it, fails when the record has no \<open>proxyAdmin\<close> address and no
  owner is given: there is no expected admin, the filter keeps every proxy, and a proxy
  recorded with the admin \<open>0xadm\<close> gets the backend call and the new admin.
\<close>

theorem ownership_filter_counterexample:
  "proxyAdminAddress (networkFile (example_controller example_proxies_data)) = None
   \<and> p_admin (snd (recorded (example_controller example_proxies_data) ! 0) ! 1) = Some ''0xadm''
   \<and> new_calls (example_controller example_proxies_data)
         (snd (setProxiesAdmin example_env example_backend None None None ''0xnew''
                 (example_controller example_proxies_data))) =
       [Deployer_fetchOrDeploy False (Some ''1.0.0''),
        Project_changeProxyAdmin (Some ''0xa1'') ''0xnew'',
        Project_changeProxyAdmin (Some ''0xa2'') ''0xnew'']
   \<and> p_admin (snd (recorded (snd (setProxiesAdmin example_env example_backend None None None ''0xnew''
                                    (example_controller example_proxies_data))) ! 0) ! 1) = Some ''0xnew''"
  by (simp add: run_defs)

theorem unowned_proxies_untouched_witness:
  "distinct (map p_address (concat (map snd (recorded (example_controller example_legacy_data)))))
   \<and> p_admin (snd (recorded (example_controller example_legacy_data) ! 0) ! 1) = Some ''0xother''
   \<and> isMigratableZosversion example_env
         (data_zosversion (data (networkFile (example_controller example_legacy_data))))
   \<and> txParams_from (example_controller example_legacy_data) = Some ''0xsender''
   \<and> proxyAdminAddress (networkFile (snd (migrateZosversionIfNeeded example_env example_backend
                                           (example_controller example_legacy_data)))) = Some ''0xadm''
   \<and> untouched (example_controller example_legacy_data)
        (snd (setProxiesAdmin example_env example_backend None None None ''0xnew''
                (example_controller example_legacy_data))) 0 1
   \<and> untouched (example_controller example_legacy_data)
        (snd (upgradeProxies example_env example_backend None None None None []
                (example_controller example_legacy_data))) 0 1
   \<and> new_calls (example_controller example_legacy_data)
         (snd (setProxiesAdmin example_env example_backend None None None ''0xnew''
                 (example_controller example_legacy_data))) =
       [ProxyAdmin_fetch (Some ''0xadm''), Proxy_admin (Some ''0xa1''),
        Deployer_fetchOrDeploy False (Some ''1.0.0''),
        Project_changeProxyAdmin (Some ''0xa1'') ''0xnew'']
   \<and> \<not> truthy (toChecksumAddress example_env
           (or_else None (proxyAdminAddress (networkFile (example_controller example_proxies_data)))))
   \<and> fetchOwnedProxies example_env (networkFile (example_controller example_proxies_data))
         None None None None =
       [\<lparr> p_alias = None, p_package = Some ''app'', p_contract = Some ''Token'',
          p_address = Some ''0xa1'', p_version = Some ''1.0.0'', p_implementation = Some ''0x99'',
          p_admin = None, p_kind = Some Upgradeable \<rparr>,
        \<lparr> p_alias = None, p_package = Some ''app'', p_contract = Some ''Token'',
          p_address = Some ''0xa2'', p_version = Some ''1.0.0'', p_implementation = Some ''0x99'',
          p_admin = Some ''0xadm'', p_kind = Some Upgradeable \<rparr>]"
proof -
  let ?nc = "example_controller example_legacy_data"
  have rec: "recorded ?nc = [(''app/Token'', [example_proxy ''0xa1'' None None,
                                            example_proxy ''0xa2'' (Some ''0xother'') None])]"
    by (simp add: recorded_def example_controller_def example_networkFile_def
        example_legacy_data_def example_owned_data_def empty_data_def)
  have d: "distinct (map p_address (concat (map snd (recorded ?nc))))"
    by (simp add: rec example_proxy_def)
  have adm: "p_admin (snd (recorded ?nc ! 0) ! 1) = Some ''0xother''"
    by (simp add: rec example_proxy_def)
  have mig: "isMigratableZosversion example_env (data_zosversion (data (networkFile ?nc)))"
    by (simp add: run_defs)
  have sender: "txParams_from ?nc = Some ''0xsender''"
    by (simp add: example_controller_def)
  have after: "proxyAdminAddress (networkFile (snd (migrateZosversionIfNeeded example_env
                  example_backend ?nc))) = Some ''0xadm''"
    by (simp add: run_defs)
  have cs: "new_calls ?nc (snd (setProxiesAdmin example_env example_backend None None None ''0xnew'' ?nc)) =
       [ProxyAdmin_fetch (Some ''0xadm''), Proxy_admin (Some ''0xa1''),
        Deployer_fetchOrDeploy False (Some ''1.0.0''),
        Project_changeProxyAdmin (Some ''0xa1'') ''0xnew'']"
    by (simp add: run_defs)
  have hyp: "distinct (map p_address (concat (map snd (recorded ?nc)))) \<and>
       0 < length (recorded ?nc) \<and> 1 < length (snd (recorded ?nc ! 0)) \<and>
       truthy (p_admin (snd (recorded ?nc ! 0) ! 1)) \<and>
       truthy (toChecksumAddress example_env (or_else None
                 (proxyAdminAddress (networkFile (snd (migrateZosversionIfNeeded example_env example_backend ?nc)))))) \<and>
       toChecksumAddress example_env (p_admin (snd (recorded ?nc ! 0) ! 1)) \<noteq>
         toChecksumAddress example_env (or_else None
           (proxyAdminAddress (networkFile (snd (migrateZosversionIfNeeded example_env example_backend ?nc))))) \<and>
       (isMigratableZosversion example_env (data_zosversion (data (networkFile ?nc))) \<longrightarrow>
          truthy (toChecksumAddress example_env (or_else
                    (if isPublished (networkFile ?nc) then appAddress (networkFile ?nc) else txParams_from ?nc)
                    (proxyAdminAddress (networkFile ?nc)))) \<and>
          toChecksumAddress example_env (p_admin (snd (recorded ?nc ! 0) ! 1)) \<noteq>
            toChecksumAddress example_env (or_else
              (if isPublished (networkFile ?nc) then appAddress (networkFile ?nc) else txParams_from ?nc)
              (proxyAdminAddress (networkFile ?nc))))"
    using d adm by (simp add: rec) (simp add: run_defs)
  have "untouched ?nc (snd (setProxiesAdmin example_env example_backend None None None ''0xnew'' ?nc)) 0 1 \<and>
        untouched ?nc (snd (upgradeProxies example_env example_backend None None None None [] ?nc)) 0 1"
    using hyp
      unowned_proxies_untouched [where e = example_env and b = example_backend and nc = ?nc
        and j = 0 and i = 1 and packageName = None and contractAlias = None and proxyAddress = None
        and newAdmin = "''0xnew''" and initMethod = None and initArgs = "[]" and ownerAddress = None,
        unfolded Let_def, THEN conjunct2, THEN conjunct2, THEN conjunct2, THEN conjunct2,
        THEN conjunct2]
    by (rule rev_mp)
  note u = this
  let ?nc' = "example_controller example_proxies_data"
  have none: "\<not> truthy (toChecksumAddress example_env
                (or_else None (proxyAdminAddress (networkFile ?nc'))))"
    by (simp add: run_defs)
  have "fetchOwnedProxies example_env (networkFile ?nc') None None None None =
        getProxies example_env (networkFile ?nc')
          \<lparr> p_alias = None,
            p_package = or_else None
                          (if truthy None then Some (pf_name (packageFile (networkFile ?nc')))
                           else None),
            p_contract = None, p_address = None, p_version = None,
            p_implementation = None, p_admin = None, p_kind = Some Upgradeable \<rparr>"
    using none
      unowned_proxies_untouched [where e = example_env and b = example_backend and nc = ?nc'
        and j = 0 and i = 1 and packageName = None and contractAlias = None and proxyAddress = None
        and newAdmin = "''0xnew''" and initMethod = None and initArgs = "[]" and ownerAddress = None,
        THEN conjunct2, THEN conjunct2, THEN conjunct1]
    by (rule rev_mp)
  then have all: "fetchOwnedProxies example_env (networkFile ?nc') None None None None =
       [\<lparr> p_alias = None, p_package = Some ''app'', p_contract = Some ''Token'',
          p_address = Some ''0xa1'', p_version = Some ''1.0.0'', p_implementation = Some ''0x99'',
          p_admin = None, p_kind = Some Upgradeable \<rparr>,
        \<lparr> p_alias = None, p_package = Some ''app'', p_contract = Some ''Token'',
          p_address = Some ''0xa2'', p_version = Some ''1.0.0'', p_implementation = Some ''0x99'',
          p_admin = Some ''0xadm'', p_kind = Some Upgradeable \<rparr>]"
    by (simp add: run_defs)
  from d adm mig sender after cs u none all show ?thesis by blast
qed


end
